theory Spec2Isabelle
  imports Complex_Main
begin

section \<open>Export of simulation results for code comparison\<close>

text \<open>
  A shallow embedding of \<^verbatim>\<open>tardis_code_compare.py\<close>. The module reads arrays out of
  finished simulations, puts them on a shared velocity grid and writes text files.

  Conventions of the embedding:
  \<^item> a float64 is a \<^typ>\<open>real\<close>: every value is finite and arithmetic is exact
    (no rounding error, no inf, no nan apart from the missing cells of a table);
  \<^item> a quantity with a unit is stored already converted: times in days, velocities
    in km/s, so \<^verbatim>\<open>.to(unit).value\<close> is the identity;
  \<^item> an exception is an \<open>Inl\<close> of the result type \<open>py_error + 'a\<close>.
\<close>

subsection \<open>Exceptions\<close>

datatype py_error =
  ValueError | TypeError | KeyError | IndexError | AttributeError | OverflowError | OSError

definition bind_err :: "py_error + 'a \<Rightarrow> ('a \<Rightarrow> py_error + 'b) \<Rightarrow> py_error + 'b" where
  "bind_err m f = (case m of Inl e \<Rightarrow> Inl e | Inr x \<Rightarrow> f x)"

text \<open>A list comprehension whose body may raise: the first exception ends it.\<close>

fun map_err :: "('a \<Rightarrow> py_error + 'b) \<Rightarrow> 'a list \<Rightarrow> py_error + 'b list" where
  "map_err f [] = Inr []"
| "map_err f (x # xs) =
     (case f x of
        Inl e \<Rightarrow> Inl e
      | Inr y \<Rightarrow> (case map_err f xs of Inl e \<Rightarrow> Inl e | Inr ys \<Rightarrow> Inr (y # ys)))"

subsection \<open>The numpy and Python primitives the module calls\<close>

text \<open>\<^verbatim>\<open>np.diff\<close>: successive differences, one element shorter than the array.\<close>

fun np_diff :: "real list \<Rightarrow> real list" where
  "np_diff (x # y # xs) = (y - x) # np_diff (y # xs)"
| "np_diff xs = []"

text \<open>\<^verbatim>\<open>np.min\<close>, \<^verbatim>\<open>np.max\<close>, \<^verbatim>\<open>ndarray.min\<close>, \<^verbatim>\<open>ndarray.max\<close>:
  a reduction of a zero-size array raises ValueError.\<close>

fun np_min :: "real list \<Rightarrow> py_error + real" where
  "np_min [] = Inl ValueError"
| "np_min (x # xs) = Inr (fold min xs x)"

fun np_max :: "real list \<Rightarrow> py_error + real" where
  "np_max [] = Inl ValueError"
| "np_max (x # xs) = Inr (fold max xs x)"

text \<open>Python 3 \<^verbatim>\<open>round(x)\<close> with one argument: to the nearest integer, a tie to the
  even one.\<close>

definition py_round :: "real \<Rightarrow> int" where
  "py_round x =
     (let f = \<lfloor>x\<rfloor>; d = x - of_int f
      in if d < 1 / 2 then f
         else if 1 / 2 < d then f + 1
         else if even f then f else f + 1)"

text \<open>\<^verbatim>\<open>np.linspace(start, stop, num)\<close> with the endpoint included: a negative
  \<open>num\<close> raises ValueError; otherwise \<open>num\<close> samples \<open>start + i * step\<close> with
  \<open>step = (stop - start) / (num - 1)\<close>, the last one then overwritten by \<open>stop\<close>.\<close>

definition np_linspace :: "real \<Rightarrow> real \<Rightarrow> int \<Rightarrow> py_error + real list" where
  "np_linspace start stop num =
     (if num < 0 then Inl ValueError
      else
        let n = nat num;
            step = (stop - start) / (of_int num - 1);
            y = map (\<lambda>i. start + of_nat i * step) [0..<n]
        in Inr (if 1 < n then y[n - 1 := stop] else y))"

text \<open>\<^verbatim>\<open>np.interp(x, xp, fp, left, right)\<close> at one query point that is neither below
  the first nor above the last sample point: the library looks up the last index \<open>j\<close>
  with \<open>xp[j] \<le> x\<close> and returns \<open>fp[j]\<close> at the last sample point or at a sample point
  hit exactly, and \<open>slope * (x - xp[j]) + fp[j]\<close> otherwise. The scan below finds the
  same \<open>j\<close> when \<open>xp\<close> is increasing, which the library expects and does not check.\<close>

fun interp_inner :: "real \<Rightarrow> (real \<times> real) list \<Rightarrow> real" where
  "interp_inner x ((x0, y0) # (x1, y1) # ps) =
     (if x < x1 then (if x0 = x then y0 else (y1 - y0) / (x1 - x0) * (x - x0) + y0)
      else interp_inner x ((x1, y1) # ps))"
| "interp_inner x [(x0, y0)] = y0"
| "interp_inner x [] = 0"

definition interp_point :: "real list \<Rightarrow> real list \<Rightarrow> real \<Rightarrow> real \<Rightarrow> real \<Rightarrow> real" where
  "interp_point xp fp left right x =
     (if x < hd xp then left
      else if last xp < x then right
      else interp_inner x (zip xp fp))"

text \<open>The whole call. \<open>fp\<close> is \<open>None\<close> when the caller passes Python's \<open>None\<close>, which the
  library cannot turn into an array; an empty \<open>xp\<close> and arrays of different lengths
  are refused as well.\<close>

definition np_interp ::
  "real list \<Rightarrow> real list \<Rightarrow> real list option \<Rightarrow> real \<Rightarrow> real \<Rightarrow> py_error + real list" where
  "np_interp x xp fp left right =
     (case fp of
        None \<Rightarrow> Inl ValueError
      | Some f \<Rightarrow>
          if xp = [] then Inl ValueError
          else if length f \<noteq> length xp then Inl ValueError
          else Inr (map (interp_point xp f left right) x))"

text \<open>\<^verbatim>\<open>np.vstack\<close> of one-dimensional arrays: the list must not be empty and the arrays
  must have one length.\<close>

definition np_vstack :: "real list list \<Rightarrow> py_error + real list list" where
  "np_vstack arrays =
     (if arrays = [] then Inl ValueError
      else if \<exists>a \<in> set arrays. length a \<noteq> length (hd arrays) then Inl ValueError
      else Inr arrays)"

subsection \<open>Simulation results\<close>

text \<open>The fields of a simulation object that the module reads:
  \<^verbatim>\<open>sim.model.time_explosion\<close> (days), \<^verbatim>\<open>sim.model.v_middle\<close> (km/s),
  \<^verbatim>\<open>sim.plasma.t_electrons\<close>, \<^verbatim>\<open>sim.plasma.electron_densities\<close>,
  \<^verbatim>\<open>sim.runner.spectrum.wavelength\<close> and
  \<^verbatim>\<open>sim.runner.spectrum_integrated.luminosity_density_lambda\<close>.\<close>

record simulation =
  time_explosion :: real
  v_middle :: "real list"
  t_electrons :: "real list"
  electron_densities :: "real list"
  wavelength :: "real list"
  luminosity_density_lambda :: "real list"

subsection \<open>The shared velocity grid\<close>

text \<open>The local variables of \<^verbatim>\<open>get_velocity_grid_from_simulations\<close>, each with the
  exception its computation can raise.\<close>

definition min_delta_v :: "simulation list \<Rightarrow> py_error + real" where
  "min_delta_v simulations =
     bind_err (map_err (\<lambda>v. np_min (np_diff v)) (map v_middle simulations)) np_min"

definition v_min :: "simulation list \<Rightarrow> py_error + real" where
  "v_min simulations = bind_err (map_err np_min (map v_middle simulations)) np_min"

definition v_max :: "simulation list \<Rightarrow> py_error + real" where
  "v_max simulations = bind_err (map_err np_max (map v_middle simulations)) np_max"

text \<open>\<^verbatim>\<open>round((v_max - v_min) / min_delta_v) + 2\<close>. A float64 division by zero gives
  nan (0/0) or inf, and \<^verbatim>\<open>round\<close> then raises ValueError or OverflowError.\<close>

definition N_shells :: "real \<Rightarrow> real \<Rightarrow> real \<Rightarrow> py_error + int" where
  "N_shells lo hi delta =
     (if delta = 0 then (if hi - lo = 0 then Inl ValueError else Inl OverflowError)
      else Inr (py_round ((hi - lo) / delta) + 2))"

definition get_velocity_grid_from_simulations :: "simulation list \<Rightarrow> py_error + real list" where
  "get_velocity_grid_from_simulations simulations =
     bind_err (min_delta_v simulations) (\<lambda>delta.
     bind_err (v_min simulations) (\<lambda>lo.
     bind_err (v_max simulations) (\<lambda>hi.
     bind_err (N_shells lo hi delta) (\<lambda>n.
     np_linspace lo hi n))))"

text \<open>The inputs the grid is specified for: at least one simulation, every velocity
  array strictly increasing with at least two elements. Then the set of all successive
  differences and the set of all velocities are finite and non-empty.\<close>

definition well_formed_velocities :: "simulation list \<Rightarrow> bool" where
  "well_formed_velocities simulations \<longleftrightarrow>
     simulations \<noteq> [] \<and>
     (\<forall>s \<in> set simulations. 2 \<le> length (v_middle s) \<and> sorted_wrt (<) (v_middle s))"

definition all_deltas :: "simulation list \<Rightarrow> real set" where
  "all_deltas simulations = (\<Union>s \<in> set simulations. set (np_diff (v_middle s)))"

definition all_velocities :: "simulation list \<Rightarrow> real set" where
  "all_velocities simulations = (\<Union>s \<in> set simulations. set (v_middle s))"

subsection \<open>Tables\<close>

text \<open>A pandas \<open>DataFrame\<close> as far as the module uses one: the length of its index and
  its columns in order, each with a label and one cell per index entry. A cell is a
  float or missing (\<open>None\<close>, pandas' NaN).\<close>

datatype label = IntLabel nat | StrLabel string

type_synonym cell = "real option"

record dataframe =
  index_len :: nat
  columns :: "(label \<times> cell list) list"

text \<open>\<^verbatim>\<open>pd.DataFrame(rows).T\<close> for a list of one-dimensional arrays (or the rows of a
  two-dimensional array): the constructor pads short rows with NaN up to the longest,
  the transposition turns row \<open>k\<close> into the column labelled \<open>k\<close>.\<close>

definition DataFrame_T :: "real list list \<Rightarrow> dataframe" where
  "DataFrame_T rows =
     (let n = fold max (map length rows) 0
      in \<lparr>index_len = n,
          columns = map (\<lambda>(k, r). (IntLabel k, map Some r @ replicate (n - length r) None))
                        (enumerate 0 rows)\<rparr>)"

text \<open>\<^verbatim>\<open>df.insert(loc, column, value)\<close> with an array for \<open>value\<close>, as the new frame (the
  caller stores it back: the method works in place). The label must be new and \<open>loc\<close>
  within the columns. A frame with an empty index takes the index of a non-empty
  \<open>value\<close> and fills the columns it had with NaN; otherwise the lengths must agree.\<close>

definition DataFrame_insert ::
  "nat \<Rightarrow> label \<Rightarrow> real list \<Rightarrow> dataframe \<Rightarrow> py_error + dataframe" where
  "DataFrame_insert loc column val df =
     (if column \<in> set (map fst (columns df)) then Inl ValueError
      else if length (columns df) < loc then Inl IndexError
      else if index_len df = 0 \<and> val \<noteq> [] then
        Inr \<lparr>index_len = length val,
             columns =
               (let old = map (\<lambda>(l, c). (l, replicate (length val) None)) (columns df)
                in take loc old @ [(column, map Some val)] @ drop loc old)\<rparr>
      else if length val \<noteq> index_len df then Inl ValueError
      else
        Inr (df\<lparr>columns :=
                  take loc (columns df) @ [(column, map Some val)] @ drop loc (columns df)\<rparr>))"

text \<open>The per-time table of the ionisation exporter: rows indexed by
  (atomic number, ion number), one cell per shell.\<close>

record multi_frame =
  shells :: nat
  rows :: "((nat \<times> nat) \<times> cell list) list"

text \<open>\<^verbatim>\<open>table.loc[z].T\<close>: the rows of atomic number \<open>z\<close> (KeyError when there is none),
  transposed, so that each ion number labels a column over the shells. The result is a
  new frame.\<close>

definition loc_T :: "nat \<Rightarrow> multi_frame \<Rightarrow> py_error + dataframe" where
  "loc_T z table =
     (let sel = filter (\<lambda>((a, i), cs). a = z) (rows table)
      in if sel = [] then Inl KeyError
         else Inr \<lparr>index_len = shells table,
                   columns = map (\<lambda>((a, i), cs). (IntLabel i, cs)) sel\<rparr>)"

subsection \<open>Objects, the store and the file system\<close>

text \<open>A \<open>DataFrame\<close> is a mutable object: the store maps each reference to the frame
  it holds now, and \<open>next_ref\<close> is the next free reference. The data table of an
  exporter is a reference to a frame or, for the exporters that write one block per
  time, a Python list of per-time tables. The file system maps a path to the text of
  the file; \<open>can_open\<close> tells whether \<^verbatim>\<open>open(path, mode='w+')\<close> succeeds.\<close>

datatype table_ref = FrameRef nat | FrameList "multi_frame list"

record world =
  frames :: "nat \<Rightarrow> dataframe"
  next_ref :: nat
  files :: "string \<rightharpoonup> string"
  can_open :: "string \<Rightarrow> bool"

text \<open>The concrete classes of the module. \<open>CodeComparisonOutputFile\<close> and
  \<open>VelocityInterpolatedOutputFile\<close> are their bases and have no \<open>data_type\<close> of their
  own.\<close>

datatype output_class =
  SpectralOutputFile | TGasOutputFile | EdenOutputFile
| IonFracOutputFile | PhysicalPropertyOutputFile

text \<open>An exporter object: its class and the attributes the base constructor sets.
  The attribute \<open>times\<close> (the explosion times in days) is the field \<open>times_d\<close>.\<close>

record code_comparison_output_file =
  cls :: output_class
  times_d :: "real list"
  data_table :: table_ref
  model_name :: string

record ion_frac_output_file = code_comparison_output_file +
  species :: string
  vel_mid :: "real list"
  species_num :: nat
  column_description :: string

subsection \<open>Class attributes\<close>

fun data_type :: "output_class \<Rightarrow> string" where
  "data_type SpectralOutputFile = ''spectra''"
| "data_type TGasOutputFile = ''tgas''"
| "data_type EdenOutputFile = ''eden''"
| "data_type IonFracOutputFile = ''ionfrac''"
| "data_type PhysicalPropertyOutputFile = ''phys''"

fun first_column_name :: "output_class \<Rightarrow> string" where
  "first_column_name SpectralOutputFile = ''WAVE''"
| "first_column_name c = ''VEL''"

text \<open>The description of \<open>EdenOutputFile\<close> holds the character U+2026, three bytes in
  UTF-8.\<close>

fun class_column_description :: "output_class \<Rightarrow> string" where
  "class_column_description SpectralOutputFile =
     ''#wavelength[Ang] flux_t0[erg/s/Ang] flux_t1[erg/s/Ang] ... flux_tn[erg/s/Ang]''"
| "class_column_description TGasOutputFile =
     ''#vel_mid[km/s] Tgas_t0[K] Tgas_t1[K] ... Tgas_tn[K]''"
| "class_column_description EdenOutputFile =
     ''#vel_mid[km/s] ne_t0[/cm^3] ne_t1[/cm^3] '' @ [CHR 0xE2, CHR 0x80, CHR 0xA6]
       @ '' ne_tn[/cm^3]''"
| "class_column_description IonFracOutputFile = ''#vel_mid[km/s]''"
| "class_column_description PhysicalPropertyOutputFile =
     ''#vel_mid[km/s] temp[K] rho[gcc] ne[/cm^3] natom[/cm^3]''"

subsection \<open>Construction\<close>

text \<open>\<^verbatim>\<open>CodeComparisonOutputFile.__init__\<close>. The insertion works on the object the
  caller passed: the frame behind the reference changes in the store. A Python list has
  no three-argument \<open>insert\<close> (TypeError).\<close>

definition CodeComparisonOutputFile_init ::
  "output_class \<Rightarrow> real list \<Rightarrow> table_ref \<Rightarrow> string \<Rightarrow> real list option \<Rightarrow> world
     \<Rightarrow> (py_error + code_comparison_output_file) \<times> world" where
  "CodeComparisonOutputFile_init c ts table name data_first_column w =
     (let self = \<lparr>cls = c, times_d = ts, data_table = table, model_name = name\<rparr>
      in case data_first_column of
           None \<Rightarrow> (Inr self, w)
         | Some col \<Rightarrow>
             (case table of
                FrameRef r \<Rightarrow>
                  (case DataFrame_insert 0 (StrLabel ''wav'') col (frames w r) of
                     Inl e \<Rightarrow> (Inl e, w)
                   | Inr df \<Rightarrow> (Inr self, w\<lparr>frames := (frames w)(r := df)\<rparr>))
              | FrameList l \<Rightarrow> (Inl TypeError, w)))"

subsection \<open>Extraction from simulations\<close>

definition get_times_from_simulations :: "simulation list \<Rightarrow> real list" where
  "get_times_from_simulations simulations = map time_explosion simulations"

text \<open>\<open>get_data_first_column\<close>: \<open>SpectralOutputFile\<close> takes the wavelengths of the first
  simulation, the classes under \<open>VelocityInterpolatedOutputFile\<close> the shared grid.\<close>

fun get_data_first_column :: "output_class \<Rightarrow> simulation list \<Rightarrow> py_error + real list" where
  "get_data_first_column SpectralOutputFile simulations =
     (case simulations of [] \<Rightarrow> Inl IndexError | sim # rest \<Rightarrow> Inr (wavelength sim))"
| "get_data_first_column c simulations = get_velocity_grid_from_simulations simulations"

text \<open>\<open>get_interpolation_values\<close>: only \<open>TGasOutputFile\<close> and \<open>EdenOutputFile\<close> override
  the method of the base class, whose body is \<open>pass\<close> and returns \<open>None\<close>.\<close>

fun get_interpolation_values :: "output_class \<Rightarrow> simulation \<Rightarrow> real list option" where
  "get_interpolation_values TGasOutputFile sim = Some (t_electrons sim)"
| "get_interpolation_values EdenOutputFile sim = Some (electron_densities sim)"
| "get_interpolation_values c sim = None"

definition sentinel :: real where
  "sentinel = 1 / 10 ^ 99"

definition get_data_table :: "output_class \<Rightarrow> simulation list \<Rightarrow> py_error + dataframe" where
  "get_data_table c simulations =
     (if c = SpectralOutputFile then
        Inr (DataFrame_T (map luminosity_density_lambda simulations))
      else
        bind_err (get_data_first_column c simulations) (\<lambda>v_interp.
        bind_err (map_err (\<lambda>sim. np_interp v_interp (v_middle sim)
                             (get_interpolation_values c sim) sentinel sentinel)
                    simulations) (\<lambda>interpolated_values.
        bind_err (np_vstack interpolated_values) (\<lambda>stacked.
        Inr (DataFrame_T stacked)))))"

text \<open>\<^verbatim>\<open>cls(times, data_table, model_name, data_first_column)\<close>: the constructors of
  \<open>IonFracOutputFile\<close> and \<open>PhysicalPropertyOutputFile\<close> have further required
  parameters (\<open>vel_mid\<close>; \<open>vel_mid\<close>, \<open>temp\<close>, \<open>rho\<close>, \<open>ne\<close>), so a call with four
  arguments raises TypeError before their bodies run.\<close>

definition call_constructor ::
  "output_class \<Rightarrow> real list \<Rightarrow> table_ref \<Rightarrow> string \<Rightarrow> real list option \<Rightarrow> world
     \<Rightarrow> (py_error + code_comparison_output_file) \<times> world" where
  "call_constructor c ts table name data_first_column w =
     (if c = IonFracOutputFile \<or> c = PhysicalPropertyOutputFile then (Inl TypeError, w)
      else CodeComparisonOutputFile_init c ts table name data_first_column w)"

text \<open>\<open>from_simulations\<close>. The table is a new frame in the store.\<close>

definition from_simulations ::
  "output_class \<Rightarrow> simulation list \<Rightarrow> string \<Rightarrow> world
     \<Rightarrow> (py_error + code_comparison_output_file) \<times> world" where
  "from_simulations c simulations name w =
     (let ts = get_times_from_simulations simulations
      in case get_data_table c simulations of
           Inl e \<Rightarrow> (Inl e, w)
         | Inr df \<Rightarrow>
             (let r = next_ref w;
                  w1 = w\<lparr>frames := (frames w)(r := df), next_ref := Suc r\<rparr>
              in case get_data_first_column c simulations of
                   Inl e \<Rightarrow> (Inl e, w1)
                 | Inr col \<Rightarrow> call_constructor c ts (FrameRef r) name (Some col) w1))"


subsection \<open>Text\<close>

text \<open>\<^verbatim>\<open>sep.join(items)\<close>.\<close>

fun join :: "string \<Rightarrow> string list \<Rightarrow> string" where
  "join sep [] = []"
| "join sep [x] = x"
| "join sep (x # y # ys) = x @ sep @ join sep (y # ys)"

definition nl :: char where
  "nl = CHR 0x0A"

definition digit_char :: "nat \<Rightarrow> char" where
  "digit_char d = ''0123456789'' ! d"

definition is_digit :: "char \<Rightarrow> bool" where
  "is_digit c \<longleftrightarrow> c \<in> set ''0123456789''"

definition digit_val :: "char \<Rightarrow> nat" where
  "digit_val c = length (takeWhile (\<lambda>d. d \<noteq> c) ''0123456789'')"

definition digits_val :: "string \<Rightarrow> nat" where
  "digits_val s = fold (\<lambda>c acc. 10 * acc + digit_val c) s 0"

text \<open>\<^verbatim>\<open>str(n)\<close> and \<^verbatim>\<open>'{}'.format(n)\<close> for an integer that is not negative (a length
  or an atomic number).\<close>

function nat_str :: "nat \<Rightarrow> string" where
  "nat_str n = (if n < 10 then [digit_char n] else nat_str (n div 10) @ [digit_char (n mod 10)])"
  by pat_completeness auto
termination
  by (relation "measure id") auto

declare nat_str.simps [simp del]

subsection \<open>The float format \<^verbatim>\<open>%.6E\<close>\<close>

text \<open>The decimal exponent of a positive number: the \<open>e\<close> with
  \<open>10 ^ e \<le> x < 10 ^ (e + 1)\<close>, found by repeated division or multiplication by ten.\<close>

function exponent_up :: "real \<Rightarrow> int" where
  "exponent_up x = (if x < 10 then 0 else exponent_up (x / 10) + 1)"
  by pat_completeness auto
termination
proof (relation "measure (\<lambda>x. nat \<lfloor>x\<rfloor>)")
  show "wf (measure (\<lambda>x. nat \<lfloor>x\<rfloor>))" by simp
next
  fix x :: real
  assume "\<not> x < 10"
  then have x: "10 \<le> x" by simp
  have "x / 10 \<le> x - 9" using x by simp
  then have "\<lfloor>x / 10\<rfloor> \<le> \<lfloor>x - 9\<rfloor>" by (rule floor_mono)
  also have "\<lfloor>x - 9\<rfloor> = \<lfloor>x\<rfloor> - 9" by linarith
  finally have "\<lfloor>x / 10\<rfloor> < \<lfloor>x\<rfloor>" by simp
  moreover have "0 < \<lfloor>x\<rfloor>" using x by linarith
  ultimately show "(x / 10, x) \<in> measure (\<lambda>x. nat \<lfloor>x\<rfloor>)" by simp
qed

function exponent_down :: "real \<Rightarrow> int" where
  "exponent_down x = (if 1 \<le> x \<or> x \<le> 0 then 0 else exponent_down (x * 10) - 1)"
  by pat_completeness auto
termination
proof (relation "measure (\<lambda>x. nat \<lceil>1 / x\<rceil>)")
  show "wf (measure (\<lambda>x. nat \<lceil>1 / x\<rceil>))" by simp
next
  fix x :: real
  assume "\<not> (1 \<le> x \<or> x \<le> 0)"
  then have x: "0 < x" "x < 1" by simp_all
  then have y: "1 < 1 / x" by simp
  then have c2: "2 \<le> \<lceil>1 / x\<rceil>" by linarith
  have c2r: "(2::real) \<le> of_int \<lceil>1 / x\<rceil>" using c2 by linarith
  have "1 / (x * 10) = (1 / x) / 10" by simp
  also have "\<dots> \<le> of_int \<lceil>1 / x\<rceil> / 10" by (simp add: divide_right_mono)
  also have "\<dots> \<le> of_int \<lceil>1 / x\<rceil> - 1" using c2r by linarith
  also have "\<dots> = of_int (\<lceil>1 / x\<rceil> - 1)" by (simp only: of_int_diff of_int_1)
  finally have "\<lceil>1 / (x * 10)\<rceil> \<le> \<lceil>1 / x\<rceil> - 1" by (rule ceiling_le)
  then have "nat \<lceil>1 / (x * 10)\<rceil> < nat \<lceil>1 / x\<rceil>" using c2 by linarith
  then show "(x * 10, x) \<in> measure (\<lambda>x. nat \<lceil>1 / x\<rceil>)" by (simp only: in_measure)
qed

declare exponent_up.simps [simp del] exponent_down.simps [simp del]

definition exponent10 :: "real \<Rightarrow> int" where
  "exponent10 x = (if 1 \<le> x then exponent_up x else exponent_down x)"

definition pow10 :: "int \<Rightarrow> real" where
  "pow10 e = (if 0 \<le> e then 10 ^ nat e else 1 / 10 ^ nat (- e))"

text \<open>\<^verbatim>\<open>'%.6E' % x\<close> for a finite \<open>x\<close>: the sign, one digit, the point, six digits, \<open>E\<close>,
  the sign of the exponent and at least two exponent digits. The seven digits are the
  exact value of \<open>|x| / 10 ^ e * 10 ^ 6\<close> rounded to the nearest integer, a tie to the
  even one; when that rounds up to \<open>10 ^ 7\<close> the exponent grows by one.\<close>

definition mantissa_exponent :: "real \<Rightarrow> nat \<times> int" where
  "mantissa_exponent x =
     (if x = 0 then (0, 0)
      else
        let a = \<bar>x\<bar>;
            e = exponent10 a;
            m = py_round (a / pow10 e * 10 ^ 6)
        in if m = 10 ^ 7 then (10 ^ 6, e + 1) else (nat m, e))"

definition mantissa_str :: "nat \<Rightarrow> string" where
  "mantissa_str m =
     (let ds = replicate (7 - length (nat_str m)) (CHR ''0'') @ nat_str m
      in hd ds # CHR ''.'' # tl ds)"

definition exponent_str :: "int \<Rightarrow> string" where
  "exponent_str e =
     (if e < 0 then ''-'' else ''+'') @ (if \<bar>e\<bar> < 10 then ''0'' else []) @ nat_str (nat \<bar>e\<bar>)"

definition format_6E :: "real \<Rightarrow> string" where
  "format_6E x =
     (case mantissa_exponent x of
        (m, e) \<Rightarrow> (if x < 0 then ''-'' else []) @ mantissa_str m @ ''E'' @ exponent_str e)"

subsection \<open>Writing a table\<close>

text \<open>\<^verbatim>\<open>df.to_csv(f, index=False, float_format='%.6E', sep=' ', header=False)\<close>: one line
  per index entry, the cells of the columns in order, a missing cell as the empty
  string. The csv writer quotes the one field of a record that would otherwise be
  empty.\<close>

definition format_cell :: "cell \<Rightarrow> string" where
  "format_cell c = (case c of None \<Rightarrow> [] | Some x \<Rightarrow> format_6E x)"

definition csv_row :: "string list \<Rightarrow> string" where
  "csv_row fs = (if fs = [[]] then [CHR 0x22, CHR 0x22] else join '' '' fs)"

definition table_row :: "dataframe \<Rightarrow> nat \<Rightarrow> cell list" where
  "table_row df i = map (\<lambda>(l, c). c ! i) (columns df)"

definition to_csv :: "dataframe \<Rightarrow> string" where
  "to_csv df =
     concat (map (\<lambda>i. csv_row (map format_cell (table_row df i)) @ [nl]) [0..<index_len df])"

subsection \<open>Writing the base format\<close>

text \<open>\<open>float_str\<close> stands for Python's \<^verbatim>\<open>str\<close> on a float (the shortest decimal
  that reads back as the same float64), which has no counterpart on the reals: the
  methods that print a time take it as a parameter.\<close>

definition times_str :: "(real \<Rightarrow> string) \<Rightarrow> real list \<Rightarrow> string" where
  "times_str float_str ts = join '' '' (map float_str ts)"

definition fname :: "code_comparison_output_file \<Rightarrow> string" where
  "fname self = data_type (cls self) @ ''_'' @ model_name self @ ''_tardis.txt''"

text \<open>\<^verbatim>\<open>os.path.join(dest, name)\<close> on a POSIX system for a \<open>name\<close> that does not start
  with a slash, as every file name of the module.\<close>

definition os_path_join :: "string \<Rightarrow> string \<Rightarrow> string" where
  "os_path_join dest name =
     (if dest = [] then name
      else if last dest = CHR ''/'' then dest @ name
      else dest @ ''/'' @ name)"

text \<open>\<^verbatim>\<open>len(self.data_table)\<close>.\<close>

definition len_table :: "world \<Rightarrow> table_ref \<Rightarrow> nat" where
  "len_table w table = (case table of FrameRef r \<Rightarrow> index_len (frames w r) | FrameList l \<Rightarrow> length l)"

text \<open>\<^verbatim>\<open>CodeComparisonOutputFile.write\<close>, the method of \<open>SpectralOutputFile\<close>,
  \<open>TGasOutputFile\<close> and \<open>EdenOutputFile\<close>. The file is created or truncated when it is
  opened; what was written before an exception stays in it. A Python list has no
  \<open>to_csv\<close> (AttributeError).\<close>

definition write_header :: "(real \<Rightarrow> string) \<Rightarrow> code_comparison_output_file \<Rightarrow> world \<Rightarrow> string" where
  "write_header float_str self w =
     ''#NTIMES: '' @ nat_str (length (times_d self)) @ [nl]
     @ ''#N'' @ first_column_name (cls self) @ '': '' @ nat_str (len_table w (data_table self)) @ [nl]
     @ ''#TIMES[d]: '' @ times_str float_str (times_d self) @ [nl]
     @ class_column_description (cls self) @ [nl]"

definition CodeComparisonOutputFile_write ::
  "(real \<Rightarrow> string) \<Rightarrow> code_comparison_output_file \<Rightarrow> string \<Rightarrow> world
     \<Rightarrow> (py_error + unit) \<times> world" where
  "CodeComparisonOutputFile_write float_str self dest w =
     (let path = os_path_join dest (fname self)
      in if \<not> can_open w path then (Inl OSError, w)
         else
           (case data_table self of
              FrameRef r \<Rightarrow>
                (Inr (),
                 w\<lparr>files := (files w)(path \<mapsto> write_header float_str self w @ to_csv (frames w r))\<rparr>)
            | FrameList l \<Rightarrow>
                (Inl AttributeError,
                 w\<lparr>files := (files w)(path \<mapsto> write_header float_str self w)\<rparr>)))"

text \<open>The number that \<open>format_6E x\<close> denotes.\<close>

definition round_6E :: "real \<Rightarrow> real" where
  "round_6E x =
     (case mantissa_exponent x of
        (m, e) \<Rightarrow> (if x < 0 then - 1 else 1) * of_nat m * pow10 (e - 6))"

text \<open>The lines of the header and of the table body, without their terminators; the
  file is their concatenation, each followed by a newline.\<close>

definition header_lines :: "(real \<Rightarrow> string) \<Rightarrow> code_comparison_output_file \<Rightarrow> world \<Rightarrow> string list" where
  "header_lines float_str self w =
     [''#NTIMES: '' @ nat_str (length (times_d self)),
      ''#N'' @ first_column_name (cls self) @ '': '' @ nat_str (len_table w (data_table self)),
      ''#TIMES[d]: '' @ times_str float_str (times_d self),
      class_column_description (cls self)]"

definition table_lines :: "dataframe \<Rightarrow> string list" where
  "table_lines df = map (\<lambda>i. csv_row (map format_cell (table_row df i))) [0..<index_len df]"

text \<open>The number of digits a token in scientific notation shows before its exponent:
  its significant digits.\<close>

definition significant_digits :: "string \<Rightarrow> nat" where
  "significant_digits token = length (filter is_digit (takeWhile (\<lambda>c. c \<noteq> CHR ''E'') token))"


subsection \<open>The ionisation-fraction exporter\<close>

text \<open>\<^verbatim>\<open>IonFracOutputFile.__init__\<close>. \<open>name_zz\<close> is the table of the nuclide library that
  maps an element symbol to its atomic number, a parameter here; a symbol it does not
  hold raises KeyError. The caller who leaves \<open>species\<close> out gets \<open>Ca\<close>. The
  constructor of the base class runs first.\<close>

definition default_species :: string where
  "default_species = ''Ca''"

definition ion_columns :: "string \<Rightarrow> nat \<Rightarrow> string" where
  "ion_columns sp z = join '' '' (map (\<lambda>i. sp @ nat_str i) [0..<z])"

definition IonFracOutputFile_init ::
  "(string \<rightharpoonup> nat) \<Rightarrow> real list \<Rightarrow> table_ref \<Rightarrow> string \<Rightarrow> real list option \<Rightarrow> real list
     \<Rightarrow> string \<Rightarrow> world \<Rightarrow> (py_error + ion_frac_output_file) \<times> world" where
  "IonFracOutputFile_init name_zz ts table name data_first_column vm sp w =
     (case CodeComparisonOutputFile_init IonFracOutputFile ts table name data_first_column w of
        (Inl e, w') \<Rightarrow> (Inl e, w')
      | (Inr base, w') \<Rightarrow>
          (case name_zz sp of
             None \<Rightarrow> (Inl KeyError, w')
           | Some z \<Rightarrow>
               (Inr \<lparr>cls = cls base, times_d = times_d base, data_table = data_table base,
                      model_name = model_name base,
                      species = sp, vel_mid = vm, species_num = z,
                      column_description =
                        join '' '' [class_column_description IonFracOutputFile, ion_columns sp z]\<rparr>,
                w')))"

definition IonFrac_fname :: "ion_frac_output_file \<Rightarrow> string" where
  "IonFrac_fname self =
     data_type (cls self) @ ''_'' @ species self @ ''_'' @ model_name self @ ''_tardis.txt''"

text \<open>One pass of the loop of \<^verbatim>\<open>IonFracOutputFile.write\<close>: the text it writes and the
  exception that ends it, if any. \<^verbatim>\<open>self.data_table[i]\<close> is the \<open>i\<close>-th per-time table
  of a list (IndexError beyond its end). When the data table is a single frame
  instead, the subscript selects the column labelled \<open>i\<close> and \<open>.loc\<close> one of its cells,
  a number that has no \<open>insert\<close>.\<close>

definition ion_block ::
  "(real \<Rightarrow> string) \<Rightarrow> ion_frac_output_file \<Rightarrow> world \<Rightarrow> nat \<Rightarrow> real \<Rightarrow> string \<times> py_error option" where
  "ion_block float_str self w i t =
     (let head = ''#TIME: '' @ float_str t @ [nl]
                 @ ''#NVEL: '' @ nat_str (length (vel_mid self)) @ [nl]
      in case data_table self of
           FrameRef r \<Rightarrow>
             (head,
              Some (if IntLabel i \<notin> set (map fst (columns (frames w r))) then KeyError
                    else if index_len (frames w r) \<le> species_num self then KeyError
                    else AttributeError))
         | FrameList tables \<Rightarrow>
             if length tables \<le> i then (head, Some IndexError)
             else
               (case loc_T (species_num self) (tables ! i) of
                  Inl e \<Rightarrow> (head, Some e)
                | Inr ion_df \<Rightarrow>
                    (case DataFrame_insert 0 (StrLabel ''vel_mid'') (vel_mid self) ion_df of
                       Inl e \<Rightarrow> (head, Some e)
                     | Inr df \<Rightarrow> (head @ column_description self @ [nl] @ to_csv df, None))))"

fun write_blocks ::
  "(real \<Rightarrow> string) \<Rightarrow> ion_frac_output_file \<Rightarrow> world \<Rightarrow> nat \<Rightarrow> real list
     \<Rightarrow> string \<times> py_error option" where
  "write_blocks float_str self w i [] = ([], None)"
| "write_blocks float_str self w i (t # ts) =
     (case ion_block float_str self w i t of
        (text, Some e) \<Rightarrow> (text, Some e)
      | (text, None) \<Rightarrow>
          (case write_blocks float_str self w (Suc i) ts of
             (rest, err) \<Rightarrow> (text @ rest, err)))"

text \<open>\<^verbatim>\<open>IonFracOutputFile.write\<close>. What was written before an exception stays in the
  file.\<close>

definition IonFracOutputFile_write ::
  "(real \<Rightarrow> string) \<Rightarrow> ion_frac_output_file \<Rightarrow> string \<Rightarrow> world \<Rightarrow> (py_error + unit) \<times> world" where
  "IonFracOutputFile_write float_str self dest w =
     (let path = os_path_join dest (IonFrac_fname self)
      in if \<not> can_open w path then (Inl OSError, w)
         else
           (let head = ''#NTIMES: '' @ nat_str (length (times_d self)) @ [nl]
                       @ ''#NSTAGES: '' @ nat_str (species_num self) @ [nl]
                       @ ''#TIMES[d]: '' @ times_str float_str (times_d self) @ [nl]
                       @ ''#'' @ [nl]
            in case write_blocks float_str self w 0 (times_d self) of
                 (text, err) \<Rightarrow>
                   ((case err of None \<Rightarrow> Inr () | Some e \<Rightarrow> Inl e),
                    w\<lparr>files := (files w)(path \<mapsto> head @ text)\<rparr>)))"


subsection \<open>Reading a file back\<close>

text \<open>The module has no reader. The round trip of a written file is stated against
  the reader that the property names: the text is split into lines, the lines that
  start with \<open>#\<close> and the empty ones are skipped, every other line is split at blanks
  and every token is read as a decimal number in scientific notation.\<close>

fun lines_acc :: "string \<Rightarrow> string \<Rightarrow> string list" where
  "lines_acc cur [] = (if cur = [] then [] else [cur])"
| "lines_acc cur (c # cs) = (if c = nl then cur # lines_acc [] cs else lines_acc (cur @ [c]) cs)"

definition split_lines :: "string \<Rightarrow> string list" where
  "split_lines s = lines_acc [] s"

fun words_acc :: "string \<Rightarrow> string \<Rightarrow> string list" where
  "words_acc cur [] = (if cur = [] then [] else [cur])"
| "words_acc cur (c # cs) =
     (if c = CHR '' '' then (if cur = [] then words_acc [] cs else cur # words_acc [] cs)
      else words_acc (cur @ [c]) cs)"

definition split_words :: "string \<Rightarrow> string list" where
  "split_words s = words_acc [] s"

text \<open>A token of the form \<open>[-]digits.digitsE(+|-)digits\<close> and its value.\<close>

definition parse_float :: "string \<Rightarrow> real option" where
  "parse_float s =
     (let neg = (s \<noteq> [] \<and> hd s = CHR ''-'');
          r = (if neg then tl s else s);
          ip = takeWhile is_digit r;
          r1 = dropWhile is_digit r
      in case r1 of
           [] \<Rightarrow> None
         | c1 # r2 \<Rightarrow>
             if c1 \<noteq> CHR ''.'' then None
             else
               (let fp = takeWhile is_digit r2;
                    r3 = dropWhile is_digit r2
                in case r3 of
                     c2 # c3 # ed \<Rightarrow>
                       if c2 = CHR ''E'' \<and> (c3 = CHR ''+'' \<or> c3 = CHR ''-'') \<and> ip \<noteq> []
                          \<and> ed \<noteq> [] \<and> list_all is_digit ed
                       then
                         Some ((if neg then - 1 else 1) * of_nat (digits_val (ip @ fp))
                               * pow10 ((if c3 = CHR ''-'' then - int (digits_val ed)
                                         else int (digits_val ed)) - int (length fp)))
                       else None
                   | _ \<Rightarrow> None))"

definition is_data_line :: "string \<Rightarrow> bool" where
  "is_data_line l \<longleftrightarrow> l \<noteq> [] \<and> hd l \<noteq> CHR ''#''"

definition read_table :: "string \<Rightarrow> real option list list" where
  "read_table text = map (\<lambda>l. map parse_float (split_words l)) (filter is_data_line (split_lines text))"


subsection \<open>Example inputs\<close>

text \<open>Two simulations with the velocity midpoints 1000, 2000, 3000 and
  1500, 2500, 3500, 4500 km/s.\<close>

definition scenario_sim_a :: simulation where
  "scenario_sim_a =
     \<lparr>time_explosion = 10, v_middle = [1000, 2000, 3000],
      t_electrons = [9000, 8000, 7000], electron_densities = [300, 200, 100],
      wavelength = [4000, 5000], luminosity_density_lambda = [2, 3]\<rparr>"

definition scenario_sim_b :: simulation where
  "scenario_sim_b =
     \<lparr>time_explosion = 12, v_middle = [1500, 2500, 3500, 4500],
      t_electrons = [9500, 8500, 7500, 6500], electron_densities = [400, 300, 200, 100],
      wavelength = [4000, 5000], luminosity_density_lambda = [5, 7]\<rparr>"

definition scenario_simulations :: "simulation list" where
  "scenario_simulations = [scenario_sim_a, scenario_sim_b]"

text \<open>A store with no table yet, an empty file system in which every path can be
  opened, and a table of two rows with one column.\<close>

definition empty_world :: world where
  "empty_world =
     \<lparr>frames = (\<lambda>r. \<lparr>index_len = 0, columns = []\<rparr>), next_ref = 0,
      files = Map.empty, can_open = (\<lambda>path. True)\<rparr>"

definition example_table :: dataframe where
  "example_table = \<lparr>index_len = 2, columns = [(IntLabel 0, [Some 2, Some 3])]\<rparr>"

definition example_world :: world where
  "example_world = empty_world\<lparr>frames := (frames empty_world)(0 := example_table), next_ref := 1\<rparr>"

text \<open>A nuclide table with hydrogen, helium and calcium; ion populations of hydrogen
  (neutral and ionised) and helium on two shells at one time; a printer of times that
  agrees with Python on floats that are small non-negative integers.\<close>

definition example_name_zz :: "string \<rightharpoonup> nat" where
  "example_name_zz = [''H'' \<mapsto> 1, ''He'' \<mapsto> 2, ''Ca'' \<mapsto> 20]"

definition example_ion_table :: multi_frame where
  "example_ion_table =
     \<lparr>shells = 2,
      rows = [((1, 0), [Some (1 / 4), Some (1 / 2)]),
              ((1, 1), [Some (3 / 4), Some (1 / 2)]),
              ((2, 0), [Some 1, Some 0]),
              ((2, 1), [Some 0, Some (1 / 2)]),
              ((2, 2), [Some 0, Some (1 / 2)])]\<rparr>"

definition example_float_str :: "real \<Rightarrow> string" where
  "example_float_str t = nat_str (nat \<lfloor>t\<rfloor>) @ ''.0''"


text \<open>A store whose frame 0 has a first column and one data column, and an exporter
  of electron temperatures that refers to it.\<close>

definition example_frame :: dataframe where
  "example_frame =
     \<lparr>index_len = 2,
      columns = [(StrLabel ''wav'', [Some 1000, Some 2000]),
                 (IntLabel 0, [Some (1234567 / 1000), Some (1 / 2)])]\<rparr>"

definition example_write_world :: world where
  "example_write_world =
     empty_world\<lparr>frames := (frames empty_world)(0 := example_frame), next_ref := 1\<rparr>"

definition example_tgas_file :: code_comparison_output_file where
  "example_tgas_file =
     \<lparr>cls = TGasOutputFile, times_d = [10], data_table = FrameRef 0, model_name = ''toy''\<rparr>"


text \<open>The exporters of the ion populations of calcium and of hydrogen that the
  constructor builds for the example table.\<close>

definition example_calcium_file :: ion_frac_output_file where
  "example_calcium_file =
     \<lparr>cls = IonFracOutputFile, times_d = [10], data_table = FrameList [example_ion_table],
      model_name = ''toy'', species = ''Ca'', vel_mid = [1000, 2000], species_num = 20,
      column_description =
        ''#vel_mid[km/s] Ca0 Ca1 Ca2 Ca3 Ca4 Ca5 Ca6 Ca7 Ca8 Ca9 Ca10 Ca11 Ca12 Ca13 Ca14 Ca15 Ca16 Ca17 Ca18 Ca19''\<rparr>"

definition example_hydrogen_file :: ion_frac_output_file where
  "example_hydrogen_file =
     \<lparr>cls = IonFracOutputFile, times_d = [10], data_table = FrameList [example_ion_table],
      model_name = ''toy'', species = ''H'', vel_mid = [1000, 2000], species_num = 1,
      column_description = ''#vel_mid[km/s] H0''\<rparr>"


text \<open>Two simulations whose spectra have different lengths, the exporter of spectra
  and the store that \<open>from_simulations\<close> builds for them, and the text written for them.\<close>

definition ragged_sim_a :: simulation where
  "ragged_sim_a =
     \<lparr>time_explosion = 10, v_middle = [1000, 2000, 3000],
      t_electrons = [9000, 8000, 7000], electron_densities = [300, 200, 100],
      wavelength = [4000, 5000], luminosity_density_lambda = [2]\<rparr>"

definition ragged_sim_b :: simulation where
  "ragged_sim_b =
     \<lparr>time_explosion = 12, v_middle = [1500, 2500, 3500, 4500],
      t_electrons = [9500, 8500, 7500, 6500], electron_densities = [400, 300, 200, 100],
      wavelength = [4000, 5000], luminosity_density_lambda = [5, 7]\<rparr>"

definition ragged_file :: code_comparison_output_file where
  "ragged_file =
     \<lparr>cls = SpectralOutputFile, times_d = [10, 12], data_table = FrameRef 0, model_name = ''toy''\<rparr>"

definition ragged_frame :: dataframe where
  "ragged_frame =
     \<lparr>index_len = 2,
      columns = [(StrLabel ''wav'', [Some 4000, Some 5000]),
                 (IntLabel 0, [Some 2, None]),
                 (IntLabel 1, [Some 5, Some 7])]\<rparr>"

definition ragged_world :: world where
  "ragged_world = empty_world\<lparr>frames := (frames empty_world)(0 := ragged_frame), next_ref := 1\<rparr>"

definition ragged_text :: string where
  "ragged_text =
     ''#NTIMES: 2'' @ [nl] @ ''#NWAVE: 2'' @ [nl] @ ''#TIMES[d]: 10.0 12.0'' @ [nl]
     @ ''#wavelength[Ang] flux_t0[erg/s/Ang] flux_t1[erg/s/Ang] ... flux_tn[erg/s/Ang]'' @ [nl]
     @ ''4.000000E+03 2.000000E+00 5.000000E+00'' @ [nl]
     @ ''5.000000E+03  7.000000E+00'' @ [nl]"


section \<open>Properties\<close>

subsection \<open>Reductions, differences and rounding\<close>

lemma np_min_Min: "xs \<noteq> [] \<Longrightarrow> np_min xs = Inr (Min (set xs))"
proof (cases xs)
  case (Cons a list)
  then show ?thesis using Min.set_eq_fold[of a list] by simp
qed simp

lemma np_max_Max: "xs \<noteq> [] \<Longrightarrow> np_max xs = Inr (Max (set xs))"
proof (cases xs)
  case (Cons a list)
  then show ?thesis using Max.set_eq_fold[of a list] by simp
qed simp

lemma map_err_Inr: "(\<And>x. x \<in> set xs \<Longrightarrow> f x = Inr (g x)) \<Longrightarrow> map_err f xs = Inr (map g xs)"
  by (induction xs) simp_all

lemma np_diff_length: "length (np_diff xs) = length xs - 1"
  by (induction xs rule: np_diff.induct) simp_all

lemma np_diff_nth: "Suc i < length xs \<Longrightarrow> np_diff xs ! i = xs ! Suc i - xs ! i"
proof (induction xs arbitrary: i rule: np_diff.induct)
  case (1 x y xs)
  then show ?case by (cases i) simp_all
qed simp_all

lemma py_round_ge: "x - 1 / 2 \<le> of_int (py_round x)"
  unfolding py_round_def Let_def by (auto; linarith)

lemma py_round_le: "of_int (py_round x) \<le> x + 1 / 2"
  unfolding py_round_def Let_def by (auto; linarith)

lemma Min_map_Min:
  assumes "xs \<noteq> []" "\<And>x. x \<in> set xs \<Longrightarrow> f x \<noteq> []"
  shows "Min (set (map (\<lambda>x. Min (set (f x))) xs)) = Min (\<Union>x \<in> set xs. set (f x))"
proof (rule antisym)
  have fin: "finite (\<Union>x \<in> set xs. set (f x))" by simp
  have ne: "(\<Union>x \<in> set xs. set (f x)) \<noteq> {}" using assms by (cases xs) auto
  show "Min (set (map (\<lambda>x. Min (set (f x))) xs)) \<le> Min (\<Union>x \<in> set xs. set (f x))"
  proof (rule Min.boundedI[OF fin ne])
    fix a assume "a \<in> (\<Union>x \<in> set xs. set (f x))"
    then obtain x where x: "x \<in> set xs" "a \<in> set (f x)" by auto
    have "Min (set (map (\<lambda>x. Min (set (f x))) xs)) \<le> Min (set (f x))"
      using x by (intro Min_le) auto
    also have "\<dots> \<le> a" using x by (intro Min_le) auto
    finally show "Min (set (map (\<lambda>x. Min (set (f x))) xs)) \<le> a" .
  qed
  show "Min (\<Union>x \<in> set xs. set (f x)) \<le> Min (set (map (\<lambda>x. Min (set (f x))) xs))"
  proof (rule Min.boundedI)
    show "finite (set (map (\<lambda>x. Min (set (f x))) xs))" by simp
    show "set (map (\<lambda>x. Min (set (f x))) xs) \<noteq> {}" using assms by simp
    fix a assume "a \<in> set (map (\<lambda>x. Min (set (f x))) xs)"
    then obtain x where x: "x \<in> set xs" "a = Min (set (f x))" by auto
    have "Min (set (f x)) \<in> set (f x)" using assms(2)[OF x(1)] by (intro Min_in) auto
    then have "a \<in> (\<Union>x \<in> set xs. set (f x))" using x by auto
    then show "Min (\<Union>x \<in> set xs. set (f x)) \<le> a" using fin by (intro Min_le)
  qed
qed

lemma Max_map_Max:
  assumes "xs \<noteq> []" "\<And>x. x \<in> set xs \<Longrightarrow> f x \<noteq> []"
  shows "Max (set (map (\<lambda>x. Max (set (f x))) xs)) = Max (\<Union>x \<in> set xs. set (f x))"
proof (rule antisym)
  have fin: "finite (\<Union>x \<in> set xs. set (f x))" by simp
  have ne: "(\<Union>x \<in> set xs. set (f x)) \<noteq> {}" using assms by (cases xs) auto
  show "Max (\<Union>x \<in> set xs. set (f x)) \<le> Max (set (map (\<lambda>x. Max (set (f x))) xs))"
  proof (rule Max.boundedI[OF fin ne])
    fix a assume "a \<in> (\<Union>x \<in> set xs. set (f x))"
    then obtain x where x: "x \<in> set xs" "a \<in> set (f x)" by auto
    have "a \<le> Max (set (f x))" using x by (intro Max_ge) auto
    also have "\<dots> \<le> Max (set (map (\<lambda>x. Max (set (f x))) xs))"
      using x by (intro Max_ge) auto
    finally show "a \<le> Max (set (map (\<lambda>x. Max (set (f x))) xs))" .
  qed
  show "Max (set (map (\<lambda>x. Max (set (f x))) xs)) \<le> Max (\<Union>x \<in> set xs. set (f x))"
  proof (rule Max.boundedI)
    show "finite (set (map (\<lambda>x. Max (set (f x))) xs))" by simp
    show "set (map (\<lambda>x. Max (set (f x))) xs) \<noteq> {}" using assms by simp
    fix a assume "a \<in> set (map (\<lambda>x. Max (set (f x))) xs)"
    then obtain x where x: "x \<in> set xs" "a = Max (set (f x))" by auto
    have "Max (set (f x)) \<in> set (f x)" using assms(2)[OF x(1)] by (intro Max_in) auto
    then have "a \<in> (\<Union>x \<in> set xs. set (f x))" using x by auto
    then show "a \<le> Max (\<Union>x \<in> set xs. set (f x))" using fin by (intro Max_ge)
  qed
qed

lemma v_min_eq:
  assumes "well_formed_velocities simulations"
  shows "v_min simulations = Inr (Min (all_velocities simulations))"
proof -
  have ne: "\<And>s. s \<in> set simulations \<Longrightarrow> v_middle s \<noteq> []"
    using assms by (auto simp: well_formed_velocities_def)
  have "map_err np_min (map v_middle simulations)
          = Inr (map (\<lambda>v. Min (set v)) (map v_middle simulations))"
    by (rule map_err_Inr) (auto simp: np_min_Min ne)
  moreover have "map v_middle simulations \<noteq> []"
    using assms by (simp add: well_formed_velocities_def)
  ultimately have "v_min simulations = Inr (Min (set (map (\<lambda>s. Min (set (v_middle s))) simulations)))"
    by (simp add: v_min_def bind_err_def np_min_Min o_def)
  also have "Min (set (map (\<lambda>s. Min (set (v_middle s))) simulations)) = Min (all_velocities simulations)"
    unfolding all_velocities_def using assms ne
    by (intro Min_map_Min) (auto simp: well_formed_velocities_def)
  finally show ?thesis .
qed

lemma v_max_eq:
  assumes "well_formed_velocities simulations"
  shows "v_max simulations = Inr (Max (all_velocities simulations))"
proof -
  have ne: "\<And>s. s \<in> set simulations \<Longrightarrow> v_middle s \<noteq> []"
    using assms by (auto simp: well_formed_velocities_def)
  have "map_err np_max (map v_middle simulations)
          = Inr (map (\<lambda>v. Max (set v)) (map v_middle simulations))"
    by (rule map_err_Inr) (auto simp: np_max_Max ne)
  moreover have "map v_middle simulations \<noteq> []"
    using assms by (simp add: well_formed_velocities_def)
  ultimately have "v_max simulations = Inr (Max (set (map (\<lambda>s. Max (set (v_middle s))) simulations)))"
    by (simp add: v_max_def bind_err_def np_max_Max o_def)
  also have "Max (set (map (\<lambda>s. Max (set (v_middle s))) simulations)) = Max (all_velocities simulations)"
    unfolding all_velocities_def using assms ne
    by (intro Max_map_Max) (auto simp: well_formed_velocities_def)
  finally show ?thesis .
qed

lemma min_delta_v_eq:
  assumes "well_formed_velocities simulations"
  shows "min_delta_v simulations = Inr (Min (all_deltas simulations))"
proof -
  have ne: "\<And>s. s \<in> set simulations \<Longrightarrow> np_diff (v_middle s) \<noteq> []"
  proof -
    fix s assume "s \<in> set simulations"
    then have "2 \<le> length (v_middle s)" using assms by (auto simp: well_formed_velocities_def)
    then have "length (np_diff (v_middle s)) \<noteq> 0" by (simp add: np_diff_length)
    then show "np_diff (v_middle s) \<noteq> []" by simp
  qed
  have "map_err (\<lambda>v. np_min (np_diff v)) (map v_middle simulations)
          = Inr (map (\<lambda>v. Min (set (np_diff v))) (map v_middle simulations))"
    by (rule map_err_Inr) (auto simp: np_min_Min ne)
  moreover have "map v_middle simulations \<noteq> []"
    using assms by (simp add: well_formed_velocities_def)
  ultimately have "min_delta_v simulations
       = Inr (Min (set (map (\<lambda>s. Min (set (np_diff (v_middle s)))) simulations)))"
    by (simp add: min_delta_v_def bind_err_def np_min_Min o_def)
  also have "Min (set (map (\<lambda>s. Min (set (np_diff (v_middle s)))) simulations)) = Min (all_deltas simulations)"
    unfolding all_deltas_def using assms ne
    by (intro Min_map_Min) (auto simp: well_formed_velocities_def)
  finally show ?thesis .
qed

lemma np_diff_pos:
  assumes "sorted_wrt (<) xs" "d \<in> set (np_diff xs)"
  shows "0 < d"
proof -
  from assms(2) obtain i where i: "i < length (np_diff xs)" "d = np_diff xs ! i"
    by (auto simp: in_set_conv_nth)
  then have si: "Suc i < length xs" by (simp add: np_diff_length)
  then have "xs ! i < xs ! Suc i" using assms(1) by (simp add: sorted_wrt_iff_nth_less)
  then show ?thesis using i si by (simp add: np_diff_nth)
qed

lemma all_deltas_props:
  assumes "well_formed_velocities simulations"
  shows "finite (all_deltas simulations)" "all_deltas simulations \<noteq> {}"
        "\<And>d. d \<in> all_deltas simulations \<Longrightarrow> 0 < d"
proof -
  show "finite (all_deltas simulations)" by (simp add: all_deltas_def)
  obtain s where s: "s \<in> set simulations" using assms
    by (cases simulations) (auto simp: well_formed_velocities_def)
  then have "2 \<le> length (v_middle s)" using assms by (auto simp: well_formed_velocities_def)
  then have "length (np_diff (v_middle s)) \<noteq> 0" by (simp add: np_diff_length)
  then have "set (np_diff (v_middle s)) \<noteq> {}" by simp
  then show "all_deltas simulations \<noteq> {}" using s by (auto simp: all_deltas_def)
  fix d assume "d \<in> all_deltas simulations"
  then show "0 < d" using assms np_diff_pos
    by (auto simp: all_deltas_def well_formed_velocities_def)
qed

lemma all_velocities_props:
  assumes "well_formed_velocities simulations"
  shows "finite (all_velocities simulations)" "all_velocities simulations \<noteq> {}"
proof -
  show "finite (all_velocities simulations)" by (simp add: all_velocities_def)
  obtain s where s: "s \<in> set simulations" using assms
    by (cases simulations) (auto simp: well_formed_velocities_def)
  then have "2 \<le> length (v_middle s)" using assms by (auto simp: well_formed_velocities_def)
  then have "set (v_middle s) \<noteq> {}" by auto
  then show "all_velocities simulations \<noteq> {}" using s by (auto simp: all_velocities_def)
qed

text \<open>The span of the inputs is at least the smallest step, and that step is positive.\<close>
lemma span_ge_min_delta:
  assumes "well_formed_velocities simulations"
  shows "0 < Min (all_deltas simulations)"
    and "Min (all_deltas simulations)
           \<le> Max (all_velocities simulations) - Min (all_velocities simulations)"
proof -
  note dp = all_deltas_props[OF assms] and vp = all_velocities_props[OF assms]
  have "Min (all_deltas simulations) \<in> all_deltas simulations" using dp by (intro Min_in)
  then show "0 < Min (all_deltas simulations)" using dp(3) by blast
  obtain s where s: "s \<in> set simulations" using assms
    by (cases simulations) (auto simp: well_formed_velocities_def)
  then have len: "2 \<le> length (v_middle s)" using assms by (auto simp: well_formed_velocities_def)
  let ?v = "v_middle s"
  have d0: "np_diff ?v ! 0 = ?v ! 1 - ?v ! 0" using len by (simp add: np_diff_nth)
  have "np_diff ?v ! 0 \<in> set (np_diff ?v)" using len by (intro nth_mem) (simp add: np_diff_length)
  then have "np_diff ?v ! 0 \<in> all_deltas simulations" using s by (auto simp: all_deltas_def)
  then have a: "Min (all_deltas simulations) \<le> ?v ! 1 - ?v ! 0" using dp d0 by (metis Min_le)
  have "?v ! 1 \<in> set ?v" "?v ! 0 \<in> set ?v" using len by (auto intro!: nth_mem)
  then have "?v ! 1 \<in> all_velocities simulations" "?v ! 0 \<in> all_velocities simulations"
    using s unfolding all_velocities_def by blast+
  then have "?v ! 1 \<le> Max (all_velocities simulations)" "Min (all_velocities simulations) \<le> ?v ! 0"
    using vp by auto
  with a show "Min (all_deltas simulations)
           \<le> Max (all_velocities simulations) - Min (all_velocities simulations)" by linarith
qed

lemma spacing_le:
  fixes span delta :: real
  assumes "0 < delta" "delta \<le> span"
  shows "2 \<le> py_round (span / delta) + 2"
    and "0 < span / (of_int (py_round (span / delta) + 2) - 1)"
    and "span / (of_int (py_round (span / delta) + 2) - 1) \<le> delta"
proof -
  let ?q = "span / delta"
  have q1: "1 \<le> ?q" using assms by (simp add: le_divide_eq)
  have r: "?q - 1 / 2 \<le> of_int (py_round ?q)" by (rule py_round_ge)
  then have "(1::real) / 2 \<le> of_int (py_round ?q)" using q1 by linarith
  then have "0 \<le> py_round ?q" by linarith
  then show "2 \<le> py_round ?q + 2" by simp
  have den: "?q \<le> of_int (py_round ?q + 2) - 1" using r by simp
  then have dpos: "0 < of_int (py_round ?q + 2) - (1::real)" using q1 by linarith
  have spos: "0 < span" using assms by linarith
  show "0 < span / (of_int (py_round ?q + 2) - 1)" using spos dpos by simp
  have "span = ?q * delta" using assms by simp
  also have "\<dots> \<le> (of_int (py_round ?q + 2) - 1) * delta"
    using den assms(1) by (intro mult_right_mono) auto
  finally show "span / (of_int (py_round ?q + 2) - 1) \<le> delta"
    using dpos by (simp add: divide_le_eq mult.commute)
qed

lemma np_linspace_props:
  assumes "2 \<le> num"
  shows "\<exists>g. np_linspace a b num = Inr g \<and> length g = nat num \<and>
             (\<forall>i < nat num. g ! i = a + of_nat i * ((b - a) / (of_int num - 1)))"
proof -
  let ?n = "nat num" and ?step = "(b - a) / (of_int num - 1)"
  let ?y = "map (\<lambda>i. a + of_nat i * ?step) [0..<?n]"
  have n: "1 < ?n" using assms by simp
  have eq: "np_linspace a b num = Inr (?y[?n - 1 := b])"
    using assms n by (simp add: np_linspace_def Let_def)
  have last: "a + of_nat (?n - 1) * ?step = b"
  proof -
    have "real (?n - 1) = of_int num - 1" using assms by (simp add: of_nat_diff)
    moreover have "of_int num - (1::real) \<noteq> 0" using assms by simp
    ultimately show ?thesis by simp
  qed
  have "\<forall>i < ?n. (?y[?n - 1 := b]) ! i = a + of_nat i * ?step"
  proof (intro allI impI)
    fix i assume i: "i < ?n"
    show "(?y[?n - 1 := b]) ! i = a + of_nat i * ?step"
    proof (cases "i = ?n - 1")
      case True then show ?thesis using i last by simp
    next
      case False then show ?thesis using i by simp
    qed
  qed
  with eq show ?thesis by simp
qed

lemma grid_explicit:
  assumes wf: "well_formed_velocities simulations"
  defines "delta \<equiv> Min (all_deltas simulations)"
      and "lo \<equiv> Min (all_velocities simulations)"
      and "hi \<equiv> Max (all_velocities simulations)"
  defines "n \<equiv> py_round ((hi - lo) / delta) + 2"
  shows "N_shells lo hi delta = Inr n"
    and "2 \<le> n"
    and "0 < (hi - lo) / (of_int n - 1)"
    and "(hi - lo) / (of_int n - 1) \<le> delta"
    and "\<exists>g. get_velocity_grid_from_simulations simulations = Inr g \<and> length g = nat n \<and>
             (\<forall>i < nat n. g ! i = lo + of_nat i * ((hi - lo) / (of_int n - 1)))"
proof -
  have d: "0 < delta" "delta \<le> hi - lo"
    using span_ge_min_delta[OF wf] by (simp_all add: delta_def lo_def hi_def)
  show N: "N_shells lo hi delta = Inr n" using d by (simp add: N_shells_def n_def)
  show n2: "2 \<le> n" unfolding n_def using spacing_le(1)[OF d] .
  show "0 < (hi - lo) / (of_int n - 1)" unfolding n_def using spacing_le(2)[OF d] .
  show "(hi - lo) / (of_int n - 1) \<le> delta" unfolding n_def using spacing_le(3)[OF d] .
  have "get_velocity_grid_from_simulations simulations = np_linspace lo hi n"
    using N by (simp add: get_velocity_grid_from_simulations_def bind_err_def
        min_delta_v_eq[OF wf] v_min_eq[OF wf] v_max_eq[OF wf] delta_def lo_def hi_def)
  then show "\<exists>g. get_velocity_grid_from_simulations simulations = Inr g \<and> length g = nat n \<and>
             (\<forall>i < nat n. g ! i = lo + of_nat i * ((hi - lo) / (of_int n - 1)))"
    using np_linspace_props[OF n2, of lo hi] by simp
qed


subsection \<open>The shared velocity grid\<close>

text \<open>
  C3 (amended). For the velocity midpoints 1000, 2000, 3000 and 1500, 2500, 3500, 4500
  km/s the smallest successive difference inside any one array is 1000 km/s, so the
  grid has round(3.5) + 2 = 6 points, 1000, 1700, ..., 4500: it spans exactly
  [1000, 4500] with the uniform spacing 700 km/s.
\<close>

theorem scenario_grid:
  "min_delta_v scenario_simulations = Inr 1000 \<and>
   get_velocity_grid_from_simulations scenario_simulations
     = Inr [1000, 1700, 2400, 3100, 3800, 4500]"
  by (simp add: get_velocity_grid_from_simulations_def scenario_simulations_def
      scenario_sim_a_def scenario_sim_b_def min_delta_v_def v_min_def v_max_def
      N_shells_def py_round_def np_linspace_def bind_err_def Let_def upt_conv_Cons)

text \<open>
  C3 as stated fails: the grid of the scenario has 6 points, not at least 9, and its
  spacing is 700 km/s, not at most 500 km/s.
\<close>

theorem scenario_grid_counterexample:
  "get_velocity_grid_from_simulations scenario_simulations
     = Inr [1000, 1700, 2400, 3100, 3800, 4500] \<and>
   \<not> 9 \<le> length [1000, 1700, 2400, 3100, 3800, 4500 :: real] \<and>
   \<not> [1000, 1700, 2400, 3100, 3800, 4500 :: real] ! 1
        - [1000, 1700, 2400, 3100, 3800, 4500] ! 0 \<le> 500"
  by (simp add: get_velocity_grid_from_simulations_def scenario_simulations_def
      scenario_sim_a_def scenario_sim_b_def min_delta_v_def v_min_def v_max_def
      N_shells_def py_round_def np_linspace_def bind_err_def Let_def upt_conv_Cons)








subsection \<open>Interpolation onto the shared grid\<close>

lemma fold_max_all_eq:
  "xs \<noteq> [] \<Longrightarrow> (\<And>x. x \<in> set xs \<Longrightarrow> x = n) \<Longrightarrow> fold max xs (a::nat) = max a n"
proof (induction xs arbitrary: a)
  case (Cons x xs)
  show ?case
  proof (cases "xs = []")
    case True then show ?thesis using Cons.prems by simp
  next
    case False
    have "x = n" using Cons.prems by simp
    moreover have "fold max xs (max x a) = max (max x a) n"
      using False Cons.prems by (intro Cons.IH) auto
    ultimately show ?thesis by simp
  qed
qed simp

lemma DataFrame_T_rect:
  assumes "rs \<noteq> []" "\<And>r. r \<in> set rs \<Longrightarrow> length r = n"
  shows "index_len (DataFrame_T rs) = n"
    and "length (columns (DataFrame_T rs)) = length rs"
    and "k < length rs \<Longrightarrow> columns (DataFrame_T rs) ! k = (IntLabel k, map Some (rs ! k))"
proof -
  have m: "fold max (map length rs) 0 = n"
    using fold_max_all_eq[of "map length rs" n 0] assms by auto
  show "index_len (DataFrame_T rs) = n" by (simp add: DataFrame_T_def m)
  show "length (columns (DataFrame_T rs)) = length rs" by (simp add: DataFrame_T_def Let_def)
  assume k: "k < length rs"
  then have "length (rs ! k) = n" using assms(2) by simp
  then show "columns (DataFrame_T rs) ! k = (IntLabel k, map Some (rs ! k))"
    using k by (simp add: DataFrame_T_def m nth_enumerate_eq)
qed

lemma interp_inner_at_first:
  "sorted_wrt (<) (map fst ((x1, y1) # ps)) \<Longrightarrow> interp_inner x1 ((x1, y1) # ps) = y1"
  by (cases ps) auto

lemma interp_inner_segment:
  assumes "sorted_wrt (<) (map fst ps)" "Suc j < length ps"
    and "fst (ps ! j) \<le> x" "x \<le> fst (ps ! Suc j)"
  shows "interp_inner x ps =
           snd (ps ! j) + (snd (ps ! Suc j) - snd (ps ! j)) / (fst (ps ! Suc j) - fst (ps ! j))
             * (x - fst (ps ! j))"
  using assms
proof (induction x ps arbitrary: j rule: interp_inner.induct)
  case (1 x x0 y0 x1 y1 ps)
  have lt: "x0 < x1" using "1.prems"(1) by simp
  show ?case
  proof (cases j)
    case 0
    then have b: "x0 \<le> x" "x \<le> x1" using "1.prems" by simp_all
    show ?thesis
    proof (cases "x < x1")
      case True
      then show ?thesis using 0 by simp
    next
      case False
      then have "x = x1" using b by simp
      moreover have "interp_inner x1 ((x1, y1) # ps) = y1"
        using "1.prems"(1) by (intro interp_inner_at_first) simp
      ultimately show ?thesis using 0 lt by simp
    qed
  next
    case (Suc j')
    have "x1 \<le> fst (((x1, y1) # ps) ! j')"
    proof (cases j')
      case 0 then show ?thesis by simp
    next
      case (Suc m)
      have "sorted_wrt (\<lambda>a b. fst a < fst b) ((x1, y1) # ps)"
        using "1.prems"(1) by (simp add: sorted_wrt_map)
      then have "fst (((x1, y1) # ps) ! 0) < fst (((x1, y1) # ps) ! j')"
        using "1.prems"(2) \<open>j = Suc j'\<close> Suc
        by (intro sorted_wrt_nth_less[where P="\<lambda>a b. fst a < fst b"]) simp_all
      then show ?thesis using "1.prems"(2) \<open>j = Suc j'\<close> by simp
    qed
    then have nlt: "\<not> x < x1" using "1.prems"(3) Suc by simp
    have "interp_inner x ((x1, y1) # ps) =
           snd (((x1, y1) # ps) ! j') + (snd (((x1, y1) # ps) ! Suc j') - snd (((x1, y1) # ps) ! j'))
              / (fst (((x1, y1) # ps) ! Suc j') - fst (((x1, y1) # ps) ! j'))
             * (x - fst (((x1, y1) # ps) ! j'))"
      using "1.prems" Suc nlt by (intro "1.IH") simp_all
    then show ?thesis using nlt Suc by simp
  qed
qed simp_all

lemma interp_point_outside:
  assumes "xp \<noteq> []" "x < Min (set xp) \<or> Max (set xp) < x"
  shows "interp_point xp fp left left x = left"
proof -
  have "Min (set xp) \<le> hd xp" "last xp \<le> Max (set xp)" using assms(1) by simp_all
  then show ?thesis using assms(2) by (auto simp: interp_point_def)
qed

lemma interp_point_linear:
  assumes "sorted_wrt (<) xp" "length fp = length xp" "Suc j < length xp"
    and "xp ! j \<le> x" "x \<le> xp ! Suc j"
  shows "interp_point xp fp left right x =
           fp ! j + (fp ! Suc j - fp ! j) / (xp ! Suc j - xp ! j) * (x - xp ! j)"
proof -
  have ne: "xp \<noteq> []" using assms(3) by auto
  have "hd xp \<le> xp ! j"
  proof (cases j)
    case 0 then show ?thesis using ne by (simp add: hd_conv_nth)
  next
    case (Suc m)
    then have "xp ! 0 < xp ! j" using assms(1,3) by (intro sorted_wrt_nth_less[where P="(<)"]) simp_all
    then show ?thesis using ne by (simp add: hd_conv_nth)
  qed
  then have a: "\<not> x < hd xp" using assms(4) by simp
  have "xp ! Suc j \<le> last xp"
  proof (cases "Suc j = length xp - 1")
    case True then show ?thesis using ne by (simp add: last_conv_nth)
  next
    case False
    then have "xp ! Suc j < xp ! (length xp - 1)"
      using assms(1,3) by (intro sorted_wrt_nth_less[where P="(<)"]) simp_all
    then show ?thesis using ne by (simp add: last_conv_nth)
  qed
  then have b: "\<not> last xp < x" using assms(5) by simp
  have "interp_inner x (zip xp fp) =
           snd (zip xp fp ! j) + (snd (zip xp fp ! Suc j) - snd (zip xp fp ! j))
              / (fst (zip xp fp ! Suc j) - fst (zip xp fp ! j)) * (x - fst (zip xp fp ! j))"
    using assms by (intro interp_inner_segment) (simp_all add: map_fst_zip)
  then show ?thesis using a b assms(2,3) by (simp add: interp_point_def)
qed

lemma get_data_table_interpolated:
  assumes wf: "well_formed_velocities sims"
    and vals: "\<forall>s \<in> set sims. \<exists>f. get_interpolation_values c s = Some f \<and> length f = length (v_middle s)"
    and grid: "get_velocity_grid_from_simulations sims = Inr grid"
  shows "get_data_table c sims =
           Inr (DataFrame_T (map (\<lambda>s. map (interp_point (v_middle s)
                  (the (get_interpolation_values c s)) sentinel sentinel) grid) sims))"
proof -
  have ne: "sims \<noteq> []" using wf by (simp add: well_formed_velocities_def)
  then obtain s0 where s0: "s0 \<in> set sims" by (cases sims) auto
  have c: "c \<noteq> SpectralOutputFile"
    using vals s0 by (cases c) auto
  then have fc: "get_data_first_column c sims = Inr grid" using grid by (cases c) simp_all
  let ?g = "\<lambda>s. map (interp_point (v_middle s) (the (get_interpolation_values c s)) sentinel sentinel) grid"
  have "map_err (\<lambda>sim. np_interp grid (v_middle sim) (get_interpolation_values c sim) sentinel sentinel) sims
          = Inr (map ?g sims)"
  proof (rule map_err_Inr)
    fix s assume s: "s \<in> set sims"
    then obtain f where f: "get_interpolation_values c s = Some f" "length f = length (v_middle s)"
      using vals by blast
    have "v_middle s \<noteq> []" using wf s by (auto simp: well_formed_velocities_def)
    then show "np_interp grid (v_middle s) (get_interpolation_values c s) sentinel sentinel = Inr (?g s)"
      using f by (simp add: np_interp_def)
  qed
  moreover have "np_vstack (map ?g sims) = Inr (map ?g sims)"
    using ne by (auto simp: np_vstack_def hd_map)
  ultimately show ?thesis using c fc by (simp add: get_data_table_def bind_err_def)
qed


lemma scenario_grid_value:
  "get_velocity_grid_from_simulations scenario_simulations
     = Inr [1000, 1700, 2400, 3100, 3800, 4500]"
  by (simp add: get_velocity_grid_from_simulations_def scenario_simulations_def
      scenario_sim_a_def scenario_sim_b_def min_delta_v_def v_min_def v_max_def
      N_shells_def py_round_def np_linspace_def bind_err_def Let_def upt_conv_Cons)

lemma scenario_well_formed: "well_formed_velocities scenario_simulations"
  by (simp add: well_formed_velocities_def scenario_simulations_def
        scenario_sim_a_def scenario_sim_b_def)


text \<open>
  C6. For \<open>TGasOutputFile\<close> and \<open>EdenOutputFile\<close> (the classes that supply values to
  interpolate) and well-formed inputs, \<open>get_data_table\<close> returns a table with one row
  per grid point and one column per simulation. The cell of simulation \<open>k\<close> at grid
  point \<open>i\<close> is exactly 1e-99 when the grid point lies strictly below the smallest or
  strictly above the largest velocity of that simulation, and is the linear
  interpolant between the two neighbouring velocities of that simulation when the grid
  point lies between them.
\<close>

theorem interpolated_outside_range_is_sentinel:
  assumes wf: "well_formed_velocities sims"
    and vals: "\<forall>s \<in> set sims. \<exists>f. get_interpolation_values c s = Some f \<and> length f = length (v_middle s)"
  shows "sentinel = 1 / 10 ^ 99 \<and>
    (\<exists>grid table.
      get_velocity_grid_from_simulations sims = Inr grid \<and>
      get_data_table c sims = Inr table \<and>
      index_len table = length grid \<and> length (columns table) = length sims \<and>
      (\<forall>k i. k < length sims \<longrightarrow> i < length grid \<longrightarrow>
         (\<exists>y. snd (columns table ! k) ! i = Some y \<and>
            (grid ! i < Min (set (v_middle (sims ! k))) \<or> Max (set (v_middle (sims ! k))) < grid ! i
               \<longrightarrow> y = sentinel) \<and>
            (\<forall>j f. get_interpolation_values c (sims ! k) = Some f \<longrightarrow>
                 Suc j < length (v_middle (sims ! k)) \<longrightarrow>
                 v_middle (sims ! k) ! j \<le> grid ! i \<longrightarrow> grid ! i \<le> v_middle (sims ! k) ! Suc j \<longrightarrow>
                 y = f ! j + (f ! Suc j - f ! j)
                       / (v_middle (sims ! k) ! Suc j - v_middle (sims ! k) ! j)
                       * (grid ! i - v_middle (sims ! k) ! j)))))"
proof -
  from grid_explicit(5)[OF wf] obtain grid
    where grid: "get_velocity_grid_from_simulations sims = Inr grid" by blast
  let ?row = "\<lambda>s. map (interp_point (v_middle s) (the (get_interpolation_values c s)) sentinel sentinel) grid"
  let ?table = "DataFrame_T (map ?row sims)"
  have ne: "sims \<noteq> []" using wf by (simp add: well_formed_velocities_def)
  have tab: "get_data_table c sims = Inr ?table"
    by (rule get_data_table_interpolated[OF wf vals grid])
  have rect: "map ?row sims \<noteq> []" "\<And>r. r \<in> set (map ?row sims) \<Longrightarrow> length r = length grid"
    using ne by auto
  note T = DataFrame_T_rect[OF rect]
  have cells: "\<forall>k i. k < length sims \<longrightarrow> i < length grid \<longrightarrow>
         (\<exists>y. snd (columns ?table ! k) ! i = Some y \<and>
            (grid ! i < Min (set (v_middle (sims ! k))) \<or> Max (set (v_middle (sims ! k))) < grid ! i
               \<longrightarrow> y = sentinel) \<and>
            (\<forall>j f. get_interpolation_values c (sims ! k) = Some f \<longrightarrow>
                 Suc j < length (v_middle (sims ! k)) \<longrightarrow>
                 v_middle (sims ! k) ! j \<le> grid ! i \<longrightarrow> grid ! i \<le> v_middle (sims ! k) ! Suc j \<longrightarrow>
                 y = f ! j + (f ! Suc j - f ! j)
                       / (v_middle (sims ! k) ! Suc j - v_middle (sims ! k) ! j)
                       * (grid ! i - v_middle (sims ! k) ! j)))"
  proof (intro allI impI)
    fix k i assume k: "k < length sims" and i: "i < length grid"
    let ?s = "sims ! k"
    let ?y = "interp_point (v_middle ?s) (the (get_interpolation_values c ?s)) sentinel sentinel (grid ! i)"
    have sk: "?s \<in> set sims" using k by simp
    then have v: "2 \<le> length (v_middle ?s)" "sorted_wrt (<) (v_middle ?s)"
      using wf by (auto simp: well_formed_velocities_def)
    then have vne: "v_middle ?s \<noteq> []" by auto
    obtain f0 where f0: "get_interpolation_values c ?s = Some f0" "length f0 = length (v_middle ?s)"
      using vals sk by blast
    have "columns ?table ! k = (IntLabel k, map Some (map ?row sims ! k))"
      using T(3)[of k] k by simp
    then have cell: "snd (columns ?table ! k) ! i = Some ?y" using k i by simp
    have out: "grid ! i < Min (set (v_middle ?s)) \<or> Max (set (v_middle ?s)) < grid ! i
               \<longrightarrow> ?y = sentinel"
      using interp_point_outside[OF vne] by blast
    have lin: "\<forall>j f. get_interpolation_values c ?s = Some f \<longrightarrow>
                 Suc j < length (v_middle ?s) \<longrightarrow>
                 v_middle ?s ! j \<le> grid ! i \<longrightarrow> grid ! i \<le> v_middle ?s ! Suc j \<longrightarrow>
                 ?y = f ! j + (f ! Suc j - f ! j)
                       / (v_middle ?s ! Suc j - v_middle ?s ! j)
                       * (grid ! i - v_middle ?s ! j)"
      using interp_point_linear[OF v(2) f0(2)] f0(1) by auto
    show "\<exists>y. snd (columns ?table ! k) ! i = Some y \<and>
            (grid ! i < Min (set (v_middle ?s)) \<or> Max (set (v_middle ?s)) < grid ! i
               \<longrightarrow> y = sentinel) \<and>
            (\<forall>j f. get_interpolation_values c ?s = Some f \<longrightarrow>
                 Suc j < length (v_middle ?s) \<longrightarrow>
                 v_middle ?s ! j \<le> grid ! i \<longrightarrow> grid ! i \<le> v_middle ?s ! Suc j \<longrightarrow>
                 y = f ! j + (f ! Suc j - f ! j)
                       / (v_middle ?s ! Suc j - v_middle ?s ! j)
                       * (grid ! i - v_middle ?s ! j))"
      using cell out lin by blast
  qed
  have "index_len ?table = length grid" "length (columns ?table) = length sims"
    using T(1,2) by simp_all
  with grid tab cells have "\<exists>grid table.
      get_velocity_grid_from_simulations sims = Inr grid \<and>
      get_data_table c sims = Inr table \<and>
      index_len table = length grid \<and> length (columns table) = length sims \<and>
      (\<forall>k i. k < length sims \<longrightarrow> i < length grid \<longrightarrow>
         (\<exists>y. snd (columns table ! k) ! i = Some y \<and>
            (grid ! i < Min (set (v_middle (sims ! k))) \<or> Max (set (v_middle (sims ! k))) < grid ! i
               \<longrightarrow> y = sentinel) \<and>
            (\<forall>j f. get_interpolation_values c (sims ! k) = Some f \<longrightarrow>
                 Suc j < length (v_middle (sims ! k)) \<longrightarrow>
                 v_middle (sims ! k) ! j \<le> grid ! i \<longrightarrow> grid ! i \<le> v_middle (sims ! k) ! Suc j \<longrightarrow>
                 y = f ! j + (f ! Suc j - f ! j)
                       / (v_middle (sims ! k) ! Suc j - v_middle (sims ! k) ! j)
                       * (grid ! i - v_middle (sims ! k) ! j))))"
    by blast
  then show ?thesis unfolding sentinel_def by (intro conjI refl)
qed

theorem interpolated_outside_range_is_sentinel_witness:
  "well_formed_velocities scenario_simulations \<and>
   (\<exists>table. get_data_table TGasOutputFile scenario_simulations = Inr table \<and>
      snd (columns table ! 0) ! 3 = Some (1 / 10 ^ 99) \<and>
      snd (columns table ! 1) ! 0 = Some (1 / 10 ^ 99) \<and>
      snd (columns table ! 0) ! 1 = Some 8300)"
proof -
  have vals: "\<forall>s \<in> set scenario_simulations.
      \<exists>f. get_interpolation_values TGasOutputFile s = Some f \<and> length f = length (v_middle s)"
    by (simp add: scenario_simulations_def scenario_sim_a_def scenario_sim_b_def)
  from interpolated_outside_range_is_sentinel[OF scenario_well_formed vals]
  obtain grid table where
    g: "get_velocity_grid_from_simulations scenario_simulations = Inr grid"
    and t: "get_data_table TGasOutputFile scenario_simulations = Inr table"
    and cells: "\<And>k i. k < length scenario_simulations \<Longrightarrow> i < length grid \<Longrightarrow>
         (\<exists>y. snd (columns table ! k) ! i = Some y \<and>
            (grid ! i < Min (set (v_middle (scenario_simulations ! k)))
               \<or> Max (set (v_middle (scenario_simulations ! k))) < grid ! i
               \<longrightarrow> y = sentinel) \<and>
            (\<forall>j f. get_interpolation_values TGasOutputFile (scenario_simulations ! k) = Some f \<longrightarrow>
                 Suc j < length (v_middle (scenario_simulations ! k)) \<longrightarrow>
                 v_middle (scenario_simulations ! k) ! j \<le> grid ! i \<longrightarrow>
                 grid ! i \<le> v_middle (scenario_simulations ! k) ! Suc j \<longrightarrow>
                 y = f ! j + (f ! Suc j - f ! j)
                       / (v_middle (scenario_simulations ! k) ! Suc j
                            - v_middle (scenario_simulations ! k) ! j)
                       * (grid ! i - v_middle (scenario_simulations ! k) ! j)))"
    by blast
  have grid: "grid = [1000, 1700, 2400, 3100, 3800, 4500]"
    using g scenario_grid_value by simp
  have a: "snd (columns table ! 0) ! 3 = Some (1 / 10 ^ 99)"
    using cells[of 0 3]
    by (auto simp: grid scenario_simulations_def scenario_sim_a_def sentinel_def)
  have b: "snd (columns table ! 1) ! 0 = Some (1 / 10 ^ 99)"
    using cells[of 1 0]
    by (auto simp: grid scenario_simulations_def scenario_sim_b_def sentinel_def)
  from cells[of 0 1] obtain y where y: "snd (columns table ! 0) ! 1 = Some y"
    and lin: "\<And>j f. get_interpolation_values TGasOutputFile (scenario_simulations ! 0) = Some f \<Longrightarrow>
                 Suc j < length (v_middle (scenario_simulations ! 0)) \<Longrightarrow>
                 v_middle (scenario_simulations ! 0) ! j \<le> grid ! 1 \<Longrightarrow>
                 grid ! 1 \<le> v_middle (scenario_simulations ! 0) ! Suc j \<Longrightarrow>
                 y = f ! j + (f ! Suc j - f ! j)
                       / (v_middle (scenario_simulations ! 0) ! Suc j
                            - v_middle (scenario_simulations ! 0) ! j)
                       * (grid ! 1 - v_middle (scenario_simulations ! 0) ! j)"
    by (auto simp: grid scenario_simulations_def)
  have "y = 8300"
    using lin[of "[9000, 8000, 7000]" 0]
    by (simp add: grid scenario_simulations_def scenario_sim_a_def)
  with y a b t scenario_well_formed show ?thesis by blast
qed


subsection \<open>Construction of the base exporter\<close>

lemma DataFrame_insert_front_ok:
  assumes "column \<notin> set (map fst (columns df))"
    and "length val = index_len df \<or> index_len df = 0"
  shows "\<exists>df'. DataFrame_insert 0 column val df = Inr df' \<and>
           index_len df' = length val \<and>
           map fst (columns df') = column # map fst (columns df) \<and>
           hd (columns df') = (column, map Some val) \<and>
           (\<forall>k i. k < length (columns df) \<longrightarrow> i < index_len df \<longrightarrow>
                snd (columns df' ! Suc k) ! i = snd (columns df ! k) ! i) \<and>
           (length val = index_len df \<longrightarrow> tl (columns df') = columns df)"
proof (cases "index_len df = 0 \<and> val \<noteq> []")
  case True
  then show ?thesis using assms(1)
    by (simp add: DataFrame_insert_def Let_def o_def case_prod_beta)
next
  case False
  then have "length val = index_len df" using assms(2) by auto
  then show ?thesis using assms(1) False
    by (auto simp: DataFrame_insert_def)
qed

lemma DataFrame_insert_fails:
  assumes "column \<in> set (map fst (columns df)) \<or> (length val \<noteq> index_len df \<and> index_len df \<noteq> 0)"
  shows "DataFrame_insert 0 column val df = Inl ValueError"
  using assms by (auto simp: DataFrame_insert_def)

text \<open>
  C10. Construction of the base exporter with \<open>data_first_column = None\<close> leaves the
  store as it is: the object holds the table it was given. With a first column and a
  reference to a frame that has no column \<open>wav\<close> yet and whose index has the length of
  the column (or is empty), the object holds the very reference the caller passed,
  the frame behind it has the new column \<open>wav\<close> in front, the columns it had follow in
  their order with their cells, no other frame and no file changes. In the remaining
  cases the insertion raises ValueError and nothing changes.
\<close>

theorem init_inserts_first_column_in_place:
  "CodeComparisonOutputFile_init c ts table name None w
     = (Inr \<lparr>cls = c, times_d = ts, data_table = table, model_name = name\<rparr>, w) \<and>
   (StrLabel ''wav'' \<notin> set (map fst (columns (frames w r))) \<longrightarrow>
    (length col = index_len (frames w r) \<or> index_len (frames w r) = 0) \<longrightarrow>
      (\<exists>w'. CodeComparisonOutputFile_init c ts (FrameRef r) name (Some col) w
               = (Inr \<lparr>cls = c, times_d = ts, data_table = FrameRef r, model_name = name\<rparr>, w') \<and>
             map fst (columns (frames w' r)) = StrLabel ''wav'' # map fst (columns (frames w r)) \<and>
             hd (columns (frames w' r)) = (StrLabel ''wav'', map Some col) \<and>
             (\<forall>k i. k < length (columns (frames w r)) \<longrightarrow> i < index_len (frames w r) \<longrightarrow>
                snd (columns (frames w' r) ! Suc k) ! i = snd (columns (frames w r) ! k) ! i) \<and>
             (length col = index_len (frames w r) \<longrightarrow>
                tl (columns (frames w' r)) = columns (frames w r)) \<and>
             (\<forall>r'. r' \<noteq> r \<longrightarrow> frames w' r' = frames w r') \<and>
             next_ref w' = next_ref w \<and> files w' = files w \<and> can_open w' = can_open w)) \<and>
   (StrLabel ''wav'' \<in> set (map fst (columns (frames w r))) \<or>
    (length col \<noteq> index_len (frames w r) \<and> index_len (frames w r) \<noteq> 0) \<longrightarrow>
      CodeComparisonOutputFile_init c ts (FrameRef r) name (Some col) w = (Inl ValueError, w))"
proof (intro conjI impI)
  show "CodeComparisonOutputFile_init c ts table name None w
     = (Inr \<lparr>cls = c, times_d = ts, data_table = table, model_name = name\<rparr>, w)"
    by (simp add: CodeComparisonOutputFile_init_def)
next
  assume a: "StrLabel ''wav'' \<notin> set (map fst (columns (frames w r)))"
    and b: "length col = index_len (frames w r) \<or> index_len (frames w r) = 0"
  from DataFrame_insert_front_ok[OF a b] obtain df' where
    df': "DataFrame_insert 0 (StrLabel ''wav'') col (frames w r) = Inr df'"
      "map fst (columns df') = StrLabel ''wav'' # map fst (columns (frames w r))"
      "hd (columns df') = (StrLabel ''wav'', map Some col)"
      "\<forall>k i. k < length (columns (frames w r)) \<longrightarrow> i < index_len (frames w r) \<longrightarrow>
                snd (columns df' ! Suc k) ! i = snd (columns (frames w r) ! k) ! i"
      "length col = index_len (frames w r) \<longrightarrow> tl (columns df') = columns (frames w r)"
    by (elim exE conjE) (rule that)
  let ?w' = "w\<lparr>frames := (frames w)(r := df')\<rparr>"
  have "CodeComparisonOutputFile_init c ts (FrameRef r) name (Some col) w
               = (Inr \<lparr>cls = c, times_d = ts, data_table = FrameRef r, model_name = name\<rparr>, ?w')"
    using df'(1) by (simp add: CodeComparisonOutputFile_init_def)
  moreover have "frames ?w' r = df'" by simp
  moreover have "\<forall>r'. r' \<noteq> r \<longrightarrow> frames ?w' r' = frames w r'" by simp
  moreover have "next_ref ?w' = next_ref w" "files ?w' = files w" "can_open ?w' = can_open w"
    by simp_all
  ultimately show "\<exists>w'. CodeComparisonOutputFile_init c ts (FrameRef r) name (Some col) w
               = (Inr \<lparr>cls = c, times_d = ts, data_table = FrameRef r, model_name = name\<rparr>, w') \<and>
             map fst (columns (frames w' r)) = StrLabel ''wav'' # map fst (columns (frames w r)) \<and>
             hd (columns (frames w' r)) = (StrLabel ''wav'', map Some col) \<and>
             (\<forall>k i. k < length (columns (frames w r)) \<longrightarrow> i < index_len (frames w r) \<longrightarrow>
                snd (columns (frames w' r) ! Suc k) ! i = snd (columns (frames w r) ! k) ! i) \<and>
             (length col = index_len (frames w r) \<longrightarrow>
                tl (columns (frames w' r)) = columns (frames w r)) \<and>
             (\<forall>r'. r' \<noteq> r \<longrightarrow> frames w' r' = frames w r') \<and>
             next_ref w' = next_ref w \<and> files w' = files w \<and> can_open w' = can_open w"
    using df'(2-5) by (intro exI[of _ ?w']) (simp only: simp_thms)
next
  assume "StrLabel ''wav'' \<in> set (map fst (columns (frames w r))) \<or>
    (length col \<noteq> index_len (frames w r) \<and> index_len (frames w r) \<noteq> 0)"
  from DataFrame_insert_fails[OF this]
  show "CodeComparisonOutputFile_init c ts (FrameRef r) name (Some col) w = (Inl ValueError, w)"
    by (simp add: CodeComparisonOutputFile_init_def)
qed

theorem init_inserts_first_column_in_place_witness:
  "StrLabel ''wav'' \<notin> set (map fst (columns (frames example_world 0))) \<and>
   length [4000, 5000 :: real] = index_len (frames example_world 0) \<and>
   (\<exists>w'. CodeComparisonOutputFile_init SpectralOutputFile [10] (FrameRef 0) ''toy''
            (Some [4000, 5000]) example_world
          = (Inr \<lparr>cls = SpectralOutputFile, times_d = [10], data_table = FrameRef 0,
                  model_name = ''toy''\<rparr>, w') \<and>
        columns (frames w' 0)
          = [(StrLabel ''wav'', [Some 4000, Some 5000]), (IntLabel 0, [Some 2, Some 3])])"
proof -
  have a: "StrLabel ''wav'' \<notin> set (map fst (columns (frames example_world 0)))"
    and b: "length [4000, 5000 :: real] = index_len (frames example_world 0)"
    by (simp_all add: example_world_def example_table_def)
  note step = init_inserts_first_column_in_place[of SpectralOutputFile "[10]" "FrameRef 0" "''toy''"
      example_world 0 "[4000, 5000]", THEN conjunct2, THEN conjunct1, rule_format, OF a disjI1[OF b]]
  from step obtain w' where w': "CodeComparisonOutputFile_init SpectralOutputFile [10] (FrameRef 0) ''toy''
            (Some [4000, 5000]) example_world
          = (Inr \<lparr>cls = SpectralOutputFile, times_d = [10], data_table = FrameRef 0,
                  model_name = ''toy''\<rparr>, w')"
    "map fst (columns (frames w' 0)) = StrLabel ''wav'' # map fst (columns (frames example_world 0))"
    "hd (columns (frames w' 0)) = (StrLabel ''wav'', map Some [4000, 5000])"
    "length [4000, 5000 :: real] = index_len (frames example_world 0)
       \<longrightarrow> tl (columns (frames w' 0)) = columns (frames example_world 0)"
    by (elim exE conjE) (rule that)
  from w'(2) have "columns (frames w' 0) \<noteq> []" by auto
  then have "columns (frames w' 0) = hd (columns (frames w' 0)) # tl (columns (frames w' 0))"
    by simp
  then have "columns (frames w' 0)
          = [(StrLabel ''wav'', [Some 4000, Some 5000]), (IntLabel 0, [Some 2, Some 3])]"
    using w'(3,4) b by (simp add: example_world_def example_table_def)
  with w'(1) a b show ?thesis by (intro conjI exI[of _ w']) simp_all
qed


subsection \<open>The factory\<close>

lemma grid_of_no_simulations: "get_velocity_grid_from_simulations [] = Inl ValueError"
  by (simp add: get_velocity_grid_from_simulations_def min_delta_v_def bind_err_def)

lemma get_data_table_without_values:
  assumes "c = IonFracOutputFile \<or> c = PhysicalPropertyOutputFile"
  shows "\<exists>e. get_data_table c sims = Inl e"
proof (cases "get_velocity_grid_from_simulations sims")
  case (Inl e)
  then show ?thesis using assms by (auto simp: get_data_table_def bind_err_def)
next
  case (Inr grid)
  then obtain s rest where sims: "sims = s # rest"
    using grid_of_no_simulations by (cases sims) auto
  have "np_interp grid (v_middle s) (get_interpolation_values c s) sentinel sentinel = Inl ValueError"
    using assms by (auto simp: np_interp_def)
  then have "map_err (\<lambda>sim. np_interp grid (v_middle sim) (get_interpolation_values c sim)
               sentinel sentinel) sims = Inl ValueError"
    by (simp add: sims)
  then show ?thesis using assms Inr by (auto simp: get_data_table_def bind_err_def)
qed

lemma DataFrame_T_labels:
  "map fst (columns (DataFrame_T rs)) = map IntLabel [0..<length rs]"
proof -
  have "map fst (columns (DataFrame_T rs)) = map (\<lambda>p. IntLabel (fst p)) (enumerate 0 rs)"
    by (simp add: DataFrame_T_def Let_def case_prod_beta o_def)
  also have "\<dots> = map IntLabel [0..<length rs]"
    using map_map[of IntLabel fst "enumerate 0 rs"] by (simp add: o_def)
  finally show ?thesis .
qed

lemma wav_not_in_DataFrame_T: "StrLabel ''wav'' \<notin> set (map fst (columns (DataFrame_T rs)))"
  unfolding DataFrame_T_labels by auto

lemma from_simulations_success:
  assumes tab: "get_data_table c sims = Inr df"
    and col: "get_data_first_column c sims = Inr col"
    and c: "c \<noteq> IonFracOutputFile" "c \<noteq> PhysicalPropertyOutputFile"
    and ins: "DataFrame_insert 0 (StrLabel ''wav'') col df = Inr df'"
  shows "from_simulations c sims name w =
           (Inr \<lparr>cls = c, times_d = map time_explosion sims, data_table = FrameRef (next_ref w),
                  model_name = name\<rparr>,
            w\<lparr>frames := (frames w)(next_ref w := df'), next_ref := Suc (next_ref w)\<rparr>)"
  using assms
  by (simp add: from_simulations_def call_constructor_def CodeComparisonOutputFile_init_def
      get_times_from_simulations_def Let_def)

text \<open>
  C2 (amended). \<open>from_simulations\<close> raises for \<open>IonFracOutputFile\<close> and
  \<open>PhysicalPropertyOutputFile\<close> whatever the simulations are: neither class supplies
  values to interpolate, so the table is never built (and the four-argument call of
  their constructors could not succeed either). For \<open>TGasOutputFile\<close> and
  \<open>EdenOutputFile\<close> it returns an object of the class when the velocity arrays are
  well-formed and every value array is as long as its velocity array; for
  \<open>SpectralOutputFile\<close> when the list is not empty and every luminosity array is as
  long as the wavelength array of the first simulation.
\<close>

theorem from_simulations_by_class:
  "(c = IonFracOutputFile \<or> c = PhysicalPropertyOutputFile \<longrightarrow>
      (\<exists>e. from_simulations c sims name w = (Inl e, w))) \<and>
   (c = TGasOutputFile \<or> c = EdenOutputFile \<longrightarrow>
    well_formed_velocities sims \<longrightarrow>
    (\<forall>s \<in> set sims. \<exists>f. get_interpolation_values c s = Some f \<and> length f = length (v_middle s)) \<longrightarrow>
      (\<exists>w'. from_simulations c sims name w =
         (Inr \<lparr>cls = c, times_d = map time_explosion sims, data_table = FrameRef (next_ref w),
                model_name = name\<rparr>, w'))) \<and>
   (c = SpectralOutputFile \<longrightarrow>
    sims \<noteq> [] \<longrightarrow>
    (\<forall>s \<in> set sims. length (luminosity_density_lambda s) = length (wavelength (hd sims))) \<longrightarrow>
      (\<exists>w'. from_simulations c sims name w =
         (Inr \<lparr>cls = c, times_d = map time_explosion sims, data_table = FrameRef (next_ref w),
                model_name = name\<rparr>, w')))"
proof (intro conjI impI)
  assume "c = IonFracOutputFile \<or> c = PhysicalPropertyOutputFile"
  from get_data_table_without_values[OF this, of sims]
  show "\<exists>e. from_simulations c sims name w = (Inl e, w)"
    by (auto simp: from_simulations_def)
next
  assume c: "c = TGasOutputFile \<or> c = EdenOutputFile"
    and wf: "well_formed_velocities sims"
    and vals: "\<forall>s \<in> set sims. \<exists>f. get_interpolation_values c s = Some f \<and> length f = length (v_middle s)"
  from grid_explicit(5)[OF wf] grid_explicit(2)[OF wf] obtain grid
    where grid: "get_velocity_grid_from_simulations sims = Inr grid" and len: "2 \<le> length grid"
    by auto
  let ?rows = "map (\<lambda>s. map (interp_point (v_middle s)
                  (the (get_interpolation_values c s)) sentinel sentinel) grid) sims"
  have tab: "get_data_table c sims = Inr (DataFrame_T ?rows)"
    by (rule get_data_table_interpolated[OF wf vals grid])
  have ne: "sims \<noteq> []" using wf by (simp add: well_formed_velocities_def)
  have il: "index_len (DataFrame_T ?rows) = length grid"
    using ne by (intro DataFrame_T_rect(1)) auto
  have col: "get_data_first_column c sims = Inr grid" using c grid by auto
  from DataFrame_insert_front_ok[OF wav_not_in_DataFrame_T, of grid ?rows] il
  obtain df' where "DataFrame_insert 0 (StrLabel ''wav'') grid (DataFrame_T ?rows) = Inr df'"
    by auto
  from from_simulations_success[OF tab col _ _ this] c
  show "\<exists>w'. from_simulations c sims name w =
         (Inr \<lparr>cls = c, times_d = map time_explosion sims, data_table = FrameRef (next_ref w),
                model_name = name\<rparr>, w')"
    by auto
next
  assume c: "c = SpectralOutputFile" and ne: "sims \<noteq> []"
    and lens: "\<forall>s \<in> set sims. length (luminosity_density_lambda s) = length (wavelength (hd sims))"
  let ?rows = "map luminosity_density_lambda sims"
  have tab: "get_data_table c sims = Inr (DataFrame_T ?rows)" using c by (simp add: get_data_table_def)
  have col: "get_data_first_column c sims = Inr (wavelength (hd sims))"
    using c ne by (cases sims) simp_all
  have il: "index_len (DataFrame_T ?rows) = length (wavelength (hd sims))"
    using ne lens by (intro DataFrame_T_rect(1)) auto
  from DataFrame_insert_front_ok[OF wav_not_in_DataFrame_T, of "wavelength (hd sims)" ?rows] il
  obtain df' where
    "DataFrame_insert 0 (StrLabel ''wav'') (wavelength (hd sims)) (DataFrame_T ?rows) = Inr df'"
    by auto
  from from_simulations_success[OF tab col _ _ this] c
  show "\<exists>w'. from_simulations c sims name w =
         (Inr \<lparr>cls = c, times_d = map time_explosion sims, data_table = FrameRef (next_ref w),
                model_name = name\<rparr>, w')"
    by auto
qed

theorem from_simulations_by_class_witness:
  "(\<exists>e. from_simulations IonFracOutputFile scenario_simulations ''toy'' empty_world
          = (Inl e, empty_world)) \<and>
   well_formed_velocities scenario_simulations \<and>
   (\<exists>w'. from_simulations TGasOutputFile scenario_simulations ''toy'' empty_world =
         (Inr \<lparr>cls = TGasOutputFile, times_d = [10, 12], data_table = FrameRef 0,
                model_name = ''toy''\<rparr>, w')) \<and>
   scenario_simulations \<noteq> [] \<and>
   (\<exists>w'. from_simulations SpectralOutputFile scenario_simulations ''toy'' empty_world =
         (Inr \<lparr>cls = SpectralOutputFile, times_d = [10, 12], data_table = FrameRef 0,
                model_name = ''toy''\<rparr>, w'))"
proof -
  have vals: "\<forall>s \<in> set scenario_simulations.
      \<exists>f. get_interpolation_values TGasOutputFile s = Some f \<and> length f = length (v_middle s)"
    by (simp add: scenario_simulations_def scenario_sim_a_def scenario_sim_b_def)
  have lens: "\<forall>s \<in> set scenario_simulations.
      length (luminosity_density_lambda s) = length (wavelength (hd scenario_simulations))"
    by (simp add: scenario_simulations_def scenario_sim_a_def scenario_sim_b_def)
  have ne: "scenario_simulations \<noteq> []" by (simp add: scenario_simulations_def)
  have ts: "map time_explosion scenario_simulations = [10, 12]"
    by (simp add: scenario_simulations_def scenario_sim_a_def scenario_sim_b_def)
  have nr: "next_ref empty_world = 0" by (simp add: empty_world_def)
  note T = from_simulations_by_class[of _ scenario_simulations "''toy''" empty_world]
  have a: "\<exists>e. from_simulations IonFracOutputFile scenario_simulations ''toy'' empty_world
          = (Inl e, empty_world)"
    using T[of IonFracOutputFile, THEN conjunct1] by simp
  have b: "\<exists>w'. from_simulations TGasOutputFile scenario_simulations ''toy'' empty_world =
         (Inr \<lparr>cls = TGasOutputFile, times_d = [10, 12], data_table = FrameRef 0,
                model_name = ''toy''\<rparr>, w')"
    using T[of TGasOutputFile, THEN conjunct2, THEN conjunct1, rule_format,
        OF disjI1[OF refl] scenario_well_formed] vals
    by (simp add: ts nr)
  have c: "\<exists>w'. from_simulations SpectralOutputFile scenario_simulations ''toy'' empty_world =
         (Inr \<lparr>cls = SpectralOutputFile, times_d = [10, 12], data_table = FrameRef 0,
                model_name = ''toy''\<rparr>, w')"
    using T[of SpectralOutputFile, THEN conjunct2, THEN conjunct2, rule_format, OF refl ne] lens
    by (simp add: ts nr)
  from a b c ne scenario_well_formed show ?thesis by (intro conjI)
qed

text \<open>
  C2 as stated fails: for the two example simulations, which are well-formed,
  \<open>from_simulations\<close> raises for the classes \<open>IonFracOutputFile\<close> and
  \<open>PhysicalPropertyOutputFile\<close>.
\<close>

theorem from_simulations_every_class_counterexample:
  "isl (fst (from_simulations IonFracOutputFile scenario_simulations ''toy'' empty_world)) \<and>
   isl (fst (from_simulations PhysicalPropertyOutputFile scenario_simulations ''toy'' empty_world))"
proof -
  have "get_data_table IonFracOutputFile scenario_simulations = Inl ValueError"
    "get_data_table PhysicalPropertyOutputFile scenario_simulations = Inl ValueError"
    by (simp_all add: get_data_table_def scenario_grid_value bind_err_def)
      (simp_all add: np_interp_def scenario_simulations_def)
  then show ?thesis by (simp add: from_simulations_def)
qed


subsection \<open>Decimal exponent and rounding of the float format\<close>

lemma exponent_up_small: "x < 10 \<Longrightarrow> exponent_up x = 0"
  by (subst exponent_up.simps) simp

lemma exponent_up_large: "10 \<le> x \<Longrightarrow> exponent_up x = exponent_up (x / 10) + 1"
  by (subst exponent_up.simps) simp

lemma exponent_down_stop: "1 \<le> x \<or> x \<le> 0 \<Longrightarrow> exponent_down x = 0"
  by (subst exponent_down.simps) simp

lemma exponent_down_step: "0 < x \<Longrightarrow> x < 1 \<Longrightarrow> exponent_down x = exponent_down (x * 10) - 1"
  by (subst exponent_down.simps) simp

lemma nat_str_small: "n < 10 \<Longrightarrow> nat_str n = [digit_char n]"
  by (subst nat_str.simps) simp

lemma nat_str_large: "10 \<le> n \<Longrightarrow> nat_str n = nat_str (n div 10) @ [digit_char (n mod 10)]"
  by (subst nat_str.simps) simp

lemma pow10_powi: "pow10 e = 10 powi e"
  by (simp add: pow10_def power_int_def field_simps)

lemma pow10_pos: "0 < pow10 e"
  by (simp add: pow10_powi)

lemma pow10_Suc: "pow10 (e + 1) = 10 * pow10 e"
  by (simp add: pow10_powi power_int_add)

lemma pow10_pred: "pow10 (e - 1) = pow10 e / 10"
  by (simp add: pow10_powi power_int_diff)

lemma pow10_0: "pow10 0 = 1"
  by (simp add: pow10_def)

lemma exponent_up_spec:
  "1 \<le> x \<Longrightarrow> pow10 (exponent_up x) \<le> x \<and> x < pow10 (exponent_up x + 1)"
proof (induction x rule: exponent_up.induct)
  case (1 x)
  show ?case
  proof (cases "x < 10")
    case True
    then show ?thesis using "1.prems" pow10_Suc[of 0] by (simp add: exponent_up_small pow10_0)
  next
    case False
    let ?e = "exponent_up (x / 10)"
    have "1 \<le> x / 10" using False by simp
    with "1.IH" False have ih: "pow10 ?e \<le> x / 10" "x / 10 < pow10 (?e + 1)" by simp_all
    have e: "exponent_up x = ?e + 1" using False by (simp add: exponent_up_large)
    have "pow10 (?e + 1) = 10 * pow10 ?e" by (rule pow10_Suc)
    moreover have "pow10 (?e + 1 + 1) = 10 * pow10 (?e + 1)" by (rule pow10_Suc)
    ultimately have "pow10 (?e + 1) \<le> x \<and> x < pow10 (?e + 1 + 1)" using ih by simp
    then show ?thesis unfolding e .
  qed
qed

lemma exponent_down_spec:
  "0 < x \<Longrightarrow> x < 1 \<Longrightarrow> pow10 (exponent_down x) \<le> x \<and> x < pow10 (exponent_down x + 1)"
proof (induction x rule: exponent_down.induct)
  case (1 x)
  let ?e = "exponent_down (x * 10)"
  have e: "exponent_down x = ?e - 1" using "1.prems" by (simp add: exponent_down_step)
  have p: "pow10 (?e - 1) = pow10 ?e / 10" by (rule pow10_pred)
  have "pow10 ?e \<le> x * 10 \<and> x * 10 < 10 * pow10 ?e"
  proof (cases "1 \<le> x * 10")
    case True
    then have "?e = 0" by (simp add: exponent_down_stop)
    then show ?thesis using True "1.prems" by (simp add: pow10_0)
  next
    case False
    then have lt: "x * 10 < 1" by simp
    have "0 < x * 10" using "1.prems" by simp
    with "1.IH" lt "1.prems" have "pow10 ?e \<le> x * 10" "x * 10 < pow10 (?e + 1)" by simp_all
    then show ?thesis by (simp add: pow10_Suc)
  qed
  then have "pow10 (?e - 1) \<le> x \<and> x < pow10 ?e" unfolding p by simp
  then show ?case unfolding e by simp
qed

lemma exponent10_spec:
  assumes "0 < x"
  shows "pow10 (exponent10 x) \<le> x" and "x < pow10 (exponent10 x + 1)"
  using assms exponent_up_spec[of x] exponent_down_spec[of x]
  by (auto simp: exponent10_def)

lemma py_round_lower: "of_int k \<le> x \<Longrightarrow> k \<le> py_round x"
  using py_round_ge[of x] by linarith

lemma py_round_upper: "x \<le> of_int k \<Longrightarrow> py_round x \<le> k"
  using py_round_le[of x] by linarith

lemma pow10_minus6: "pow10 (e - 6) = pow10 e / 10 ^ 6"
  by (simp add: pow10_powi power_int_diff)

lemma pow10_plus1_minus6: "pow10 (e + 1 - 6) = 10 * pow10 (e - 6)"
  using pow10_Suc[of "e - 6"] by (simp add: algebra_simps)

text \<open>The scaled magnitude lies between \<open>10 ^ 6\<close> and \<open>10 ^ 7\<close>.\<close>
lemma scaled_range:
  assumes "0 < a"
  shows "10 ^ 6 \<le> a / pow10 (exponent10 a) * 10 ^ 6"
    and "a / pow10 (exponent10 a) * 10 ^ 6 < 10 ^ 7"
proof -
  define p where "p = pow10 (exponent10 a)"
  define q where "q = a / p"
  have p: "0 < p" unfolding p_def by (rule pow10_pos)
  have lo: "p \<le> a" and hi: "a < 10 * p"
    using exponent10_spec[OF assms] by (simp_all add: p_def pow10_Suc)
  have "1 \<le> q" using lo p by (simp add: q_def le_divide_eq)
  then have "10 ^ 6 \<le> q * 10 ^ 6" by simp
  then show "10 ^ 6 \<le> a / pow10 (exponent10 a) * 10 ^ 6" unfolding q_def p_def .
  have "q < 10" using hi p by (simp add: q_def divide_less_eq)
  then have "q * 10 ^ 6 < 10 ^ 7" by simp
  then show "a / pow10 (exponent10 a) * 10 ^ 6 < 10 ^ 7" unfolding q_def p_def .
qed

lemma mantissa_exponent_nonzero:
  assumes "x \<noteq> 0"
  defines "e0 \<equiv> exponent10 \<bar>x\<bar>"
  defines "m0 \<equiv> py_round (\<bar>x\<bar> / pow10 e0 * 10 ^ 6)"
  shows "10 ^ 6 \<le> m0" "m0 \<le> 10 ^ 7"
    and "mantissa_exponent x = (if m0 = 10 ^ 7 then (10 ^ 6, e0 + 1) else (nat m0, e0))"
proof -
  have a: "0 < \<bar>x\<bar>" using assms by simp
  note r = scaled_range[OF a]
  have "of_int (10 ^ 6) \<le> \<bar>x\<bar> / pow10 e0 * 10 ^ 6" using r(1) unfolding e0_def by simp
  then show "10 ^ 6 \<le> m0" unfolding m0_def by (rule py_round_lower)
  have "\<bar>x\<bar> / pow10 e0 * 10 ^ 6 \<le> of_int (10 ^ 7)" using r(2) unfolding e0_def by simp
  then show "m0 \<le> 10 ^ 7" unfolding m0_def by (rule py_round_upper)
  show "mantissa_exponent x = (if m0 = 10 ^ 7 then (10 ^ 6, e0 + 1) else (nat m0, e0))"
    using assms(1) by (simp add: mantissa_exponent_def Let_def e0_def m0_def)
qed

lemma mantissa_range:
  assumes "x \<noteq> 0" "mantissa_exponent x = (m, e)"
  shows "10 ^ 6 \<le> m" "m < 10 ^ 7"
proof -
  define m0 where "m0 = py_round (\<bar>x\<bar> / pow10 (exponent10 \<bar>x\<bar>) * 10 ^ 6)"
  note M = mantissa_exponent_nonzero[OF assms(1), folded m0_def]
  have m: "m = (if m0 = 10 ^ 7 then 10 ^ 6 else nat m0)"
    using M(3) assms(2) by (simp split: if_splits)
  have b: "1000000 \<le> m0" "m0 \<le> 10000000" using M(1,2) by simp_all
  show "10 ^ 6 \<le> m"
  proof (cases "m0 = 10 ^ 7")
    case True then show ?thesis using m by simp
  next
    case False
    then have "m = nat m0" using m by simp
    then have "1000000 \<le> m" using b by linarith
    then show ?thesis by simp
  qed
  show "m < 10 ^ 7"
  proof (cases "m0 = 10 ^ 7")
    case True then show ?thesis using m by simp
  next
    case False
    then have "m = nat m0" "m0 \<noteq> 10000000" using m by simp_all
    then have "m < 10000000" using b by linarith
    then show ?thesis by simp
  qed
qed

lemma mantissa_zero: "mantissa_exponent 0 = (0, 0)"
  by (simp add: mantissa_exponent_def)

lemma round_6E_zero: "round_6E 0 = 0"
  by (simp add: round_6E_def mantissa_zero)

lemma round_6E_abs:
  assumes "x \<noteq> 0"
  shows "round_6E x = (if x < 0 then - 1 else 1)
           * (of_int (py_round (\<bar>x\<bar> / pow10 (exponent10 \<bar>x\<bar>) * 10 ^ 6))
              * pow10 (exponent10 \<bar>x\<bar> - 6))"
proof -
  define e0 where "e0 = exponent10 \<bar>x\<bar>"
  define m0 where "m0 = py_round (\<bar>x\<bar> / pow10 e0 * 10 ^ 6)"
  define u where "u = pow10 (e0 - 6)"
  define sg :: real where "sg = (if x < 0 then - 1 else 1)"
  note M = mantissa_exponent_nonzero[OF assms, folded e0_def, folded m0_def]
  have "round_6E x = sg * (of_int m0 * u)"
  proof (cases "m0 = 10 ^ 7")
    case True
    then have "mantissa_exponent x = (10 ^ 6, e0 + 1)" using M(3) by simp
    then have "round_6E x = sg * of_nat (10 ^ 6) * pow10 (e0 + 1 - 6)"
      unfolding round_6E_def sg_def by (simp only: prod.case)
    also have "pow10 (e0 + 1 - 6) = 10 * u" unfolding u_def by (rule pow10_plus1_minus6)
    finally show ?thesis using True by simp
  next
    case False
    then have "mantissa_exponent x = (nat m0, e0)" using M(3) by simp
    then have "round_6E x = sg * of_nat (nat m0) * pow10 (e0 - 6)"
      unfolding round_6E_def sg_def by (simp only: prod.case)
    moreover have "0 \<le> m0" using M(1) by simp
    ultimately show ?thesis by (simp add: u_def)
  qed
  then show ?thesis unfolding sg_def u_def m0_def e0_def .
qed

text \<open>The written value differs from the exact one by at most half a unit of the
  seventh significant digit.\<close>
lemma round_6E_error: "\<bar>round_6E x - x\<bar> \<le> \<bar>x\<bar> * 5 / 10 ^ 7"
proof (cases "x = 0")
  case True then show ?thesis by (simp add: round_6E_zero)
next
  case False
  define a where "a = \<bar>x\<bar>"
  define e0 where "e0 = exponent10 a"
  define t where "t = a / pow10 e0 * 10 ^ 6"
  define m where "m = real_of_int (py_round t)"
  define u where "u = pow10 (e0 - 6)"
  have a: "0 < a" using False by (simp add: a_def)
  have u: "0 < u" unfolding u_def by (rule pow10_pos)
  have p: "0 < pow10 e0" by (rule pow10_pos)
  have at: "a = t * u" using p by (simp add: t_def u_def pow10_minus6)
  have mt: "\<bar>m - t\<bar> \<le> 1 / 2" using py_round_ge[of t] py_round_le[of t] unfolding m_def by linarith
  have "\<bar>m * u - t * u\<bar> = \<bar>m - t\<bar> * u" using u by (simp add: left_diff_distrib[symmetric] abs_mult)
  also have "\<dots> \<le> 1 / 2 * u" using mt u by (intro mult_right_mono) simp_all
  finally have d: "\<bar>m * u - a\<bar> \<le> u / 2" using at by simp
  have "pow10 e0 \<le> a" using exponent10_spec(1)[OF a] by (simp add: e0_def)
  then have "u \<le> a / 10 ^ 6" unfolding u_def pow10_minus6 by (rule divide_right_mono) simp
  then have ub: "u / 2 \<le> a * 5 / 10 ^ 7" by simp
  have r: "round_6E x = (if x < 0 then - 1 else 1) * (m * u)"
    using round_6E_abs[OF False] unfolding m_def u_def t_def e0_def a_def .
  have "\<bar>round_6E x - x\<bar> = \<bar>m * u - a\<bar>"
  proof (cases "x < 0")
    case True
    then have "round_6E x - x = - (m * u - a)" using r by (simp add: a_def)
    then show ?thesis by (simp only: abs_minus_cancel)
  next
    case False
    then show ?thesis using r by (simp add: a_def)
  qed
  also have "\<dots> \<le> u / 2" by (rule d)
  also have "\<dots> \<le> a * 5 / 10 ^ 7" by (rule ub)
  finally show ?thesis unfolding a_def .
qed

subsection \<open>Digit strings\<close>

lemma digit_cases:
  "d < (10::nat) \<Longrightarrow> d = 0 \<or> d = 1 \<or> d = 2 \<or> d = 3 \<or> d = 4 \<or> d = 5 \<or> d = 6 \<or> d = 7
     \<or> d = 8 \<or> d = 9"
  by presburger

lemma digit_char_props:
  assumes "d < 10"
  shows "is_digit (digit_char d)" and "digit_val (digit_char d) = d"
  using digit_cases[OF assms]
  by (auto simp: digit_char_def is_digit_def digit_val_def)

lemma is_digit_not_special:
  "\<not> is_digit (CHR ''.'')" "\<not> is_digit (CHR ''E'')" "\<not> is_digit (CHR ''-'')"
  "\<not> is_digit (CHR ''+'')" "\<not> is_digit (CHR '' '')" "\<not> is_digit nl" "\<not> is_digit (CHR ''#'')"
  "is_digit (CHR ''0'')" "digit_val (CHR ''0'') = 0"
  by (simp_all add: is_digit_def nl_def digit_val_def)

lemma nat_str_digits: "list_all is_digit (nat_str n)"
proof (induction n rule: nat_str.induct)
  case (1 n)
  show ?case
  proof (cases "n < 10")
    case True then show ?thesis by (simp add: nat_str_small digit_char_props)
  next
    case False
    then show ?thesis using "1.IH" by (simp add: nat_str_large digit_char_props)
  qed
qed

lemma nat_str_nonempty: "nat_str n \<noteq> []"
  by (cases "n < 10") (simp_all add: nat_str_small nat_str_large)

lemma digits_val_snoc: "digits_val (s @ [c]) = 10 * digits_val s + digit_val c"
  by (simp add: digits_val_def)

lemma digits_val_nat_str: "digits_val (nat_str n) = n"
proof (induction n rule: nat_str.induct)
  case (1 n)
  show ?case
  proof (cases "n < 10")
    case True
    then show ?thesis by (simp add: nat_str_small digits_val_def digit_char_props)
  next
    case False
    then have "digits_val (nat_str n) = 10 * digits_val (nat_str (n div 10)) + digit_val (digit_char (n mod 10))"
      by (simp add: nat_str_large digits_val_snoc)
    also have "\<dots> = 10 * (n div 10) + n mod 10" using "1.IH" False by (simp add: digit_char_props)
    finally show ?thesis by simp
  qed
qed

lemma digits_val_zeros: "digits_val (replicate k (CHR ''0'') @ s) = digits_val s"
proof -
  have "fold (\<lambda>c acc. 10 * acc + digit_val c) (replicate k (CHR ''0'')) 0 = 0"
    by (induction k) (simp_all add: is_digit_not_special)
  then show ?thesis by (simp add: digits_val_def)
qed

lemma nat_str_length: "0 < k \<Longrightarrow> n < 10 ^ k \<Longrightarrow> length (nat_str n) \<le> k"
proof (induction n arbitrary: k rule: nat_str.induct)
  case (1 n)
  show ?case
  proof (cases "n < 10")
    case True then show ?thesis using "1.prems" by (simp add: nat_str_small)
  next
    case False
    then obtain j where k: "k = Suc j" using "1.prems" by (cases k) auto
    have "j \<noteq> 0" using False "1.prems" k by (cases j) auto
    moreover have "n div 10 < 10 ^ j" using "1.prems" k by (simp add: less_mult_imp_div_less mult.commute)
    ultimately have "length (nat_str (n div 10)) \<le> j" using "1.IH" False by simp
    then show ?thesis using False k by (simp add: nat_str_large)
  qed
qed

lemma digit_char_zero_iff: "d < 10 \<Longrightarrow> digit_char d = CHR ''0'' \<longleftrightarrow> d = 0"
  using digit_cases[of d] by (auto simp: digit_char_def)

lemma nat_str_hd_nonzero: "0 < n \<Longrightarrow> hd (nat_str n) \<noteq> CHR ''0''"
proof (induction n rule: nat_str.induct)
  case (1 n)
  show ?case
  proof (cases "n < 10")
    case True then show ?thesis using "1.prems" by (simp add: nat_str_small digit_char_zero_iff)
  next
    case False
    then have "0 < n div 10" by simp
    then have "hd (nat_str (n div 10)) \<noteq> CHR ''0''" using "1.IH" False by simp
    then show ?thesis using False by (simp add: nat_str_large nat_str_nonempty)
  qed
qed

lemma nat_str_length_lower: "10 ^ k \<le> n \<Longrightarrow> k < length (nat_str n)"
proof (induction n arbitrary: k rule: nat_str.induct)
  case (1 n)
  show ?case
  proof (cases k)
    case 0 then show ?thesis using nat_str_nonempty[of n] by (cases "nat_str n") simp_all
  next
    case (Suc j)
    then have ge: "10 * 10 ^ j \<le> n" using "1.prems" by simp
    then have n10: "\<not> n < 10" by (cases "n < 10") (auto dest: le_less_trans)
    have "10 ^ j \<le> n div 10" using ge by (simp add: less_eq_div_iff_mult_less_eq mult.commute)
    then have "j < length (nat_str (n div 10))" using "1.IH" n10 by simp
    then show ?thesis using n10 Suc by (simp add: nat_str_large)
  qed
qed

lemma mantissa_str_shape:
  assumes "m < 10 ^ 7"
  shows "\<exists>d ds. mantissa_str m = d # CHR ''.'' # ds \<and> is_digit d \<and> list_all is_digit ds \<and>
           length ds = 6 \<and> digits_val (d # ds) = m \<and> (10 ^ 6 \<le> m \<longrightarrow> d \<noteq> CHR ''0'')"
proof -
  define s where "s = replicate (7 - length (nat_str m)) (CHR ''0'') @ nat_str m"
  have len: "length (nat_str m) \<le> 7" using nat_str_length[of 7 m] assms by simp
  then have ls: "length s = 7" by (simp add: s_def)
  then have sne: "s \<noteq> []" by auto
  have dig: "list_all is_digit s"
    using nat_str_digits[of m] by (auto simp: s_def is_digit_not_special list_all_iff)
  have val: "digits_val s = m" by (simp add: s_def digits_val_zeros digits_val_nat_str)
  have split: "s = hd s # tl s" using sne by simp
  have ms: "mantissa_str m = hd s # CHR ''.'' # tl s"
    by (simp add: mantissa_str_def s_def Let_def)
  have nz: "10 ^ 6 \<le> m \<longrightarrow> hd s \<noteq> CHR ''0''"
  proof
    assume big: "10 ^ 6 \<le> m"
    then have "6 < length (nat_str m)" by (rule nat_str_length_lower)
    then have "s = nat_str m" using len by (simp add: s_def)
    moreover have "0 < m" using big by (cases m) simp_all
    ultimately show "hd s \<noteq> CHR ''0''" using nat_str_hd_nonzero by simp
  qed
  have "list_all is_digit (hd s # tl s)" using dig split by simp
  then have "is_digit (hd s)" "list_all is_digit (tl s)" by simp_all
  moreover have "length (tl s) = 6" using ls by simp
  moreover have "digits_val (hd s # tl s) = m" using val split by simp
  ultimately show ?thesis using ms nz by blast
qed

lemma exponent_str_shape:
  "\<exists>c ds. exponent_str e = c # ds \<and> (c = CHR ''+'' \<or> c = CHR ''-'') \<and>
          (c = CHR ''-'' \<longleftrightarrow> e < 0) \<and> list_all is_digit ds \<and> 2 \<le> length ds \<and>
          digits_val ds = nat \<bar>e\<bar>"
proof -
  define ds where "ds = (if \<bar>e\<bar> < 10 then ''0'' else []) @ nat_str (nat \<bar>e\<bar>)"
  have dig: "list_all is_digit ds"
    by (simp add: ds_def nat_str_digits is_digit_not_special)
  have val: "digits_val ds = nat \<bar>e\<bar>"
    using digits_val_zeros[of 1 "nat_str (nat \<bar>e\<bar>)"]
    by (simp add: ds_def digits_val_nat_str)
  have len: "2 \<le> length ds"
  proof (cases "\<bar>e\<bar> < 10")
    case True
    then show ?thesis using nat_str_nonempty[of "nat \<bar>e\<bar>"]
      by (cases "nat_str (nat \<bar>e\<bar>)") (simp_all add: ds_def)
  next
    case False
    then have "10 ^ 1 \<le> nat \<bar>e\<bar>" by simp
    then have "1 < length (nat_str (nat \<bar>e\<bar>))" by (rule nat_str_length_lower)
    then show ?thesis using False by (simp add: ds_def)
  qed
  have "exponent_str e = (if e < 0 then CHR ''-'' else CHR ''+'') # ds"
    by (simp add: exponent_str_def ds_def)
  then show ?thesis using dig val len by auto
qed

subsection \<open>The shape of a formatted float and its value\<close>

lemma format_6E_shape:
  "\<exists>d ds c es.
     format_6E x = (if x < 0 then ''-'' else []) @ d # CHR ''.'' # ds @ CHR ''E'' # c # es \<and>
     is_digit d \<and> list_all is_digit ds \<and> length ds = 6 \<and>
     (c = CHR ''+'' \<or> c = CHR ''-'') \<and> list_all is_digit es \<and> 2 \<le> length es \<and>
     (x \<noteq> 0 \<longrightarrow> d \<noteq> CHR ''0'') \<and>
     round_6E x = (if x < 0 then - 1 else 1) * of_nat (digits_val (d # ds))
        * pow10 ((if c = CHR ''-'' then - int (digits_val es) else int (digits_val es)) - 6)"
proof -
  obtain m e where me: "mantissa_exponent x = (m, e)" by (cases "mantissa_exponent x")
  have m7: "m < 10 ^ 7" and m6: "x \<noteq> 0 \<longrightarrow> 10 ^ 6 \<le> m"
  proof -
    show "m < 10 ^ 7"
    proof (cases "x = 0")
      case True then show ?thesis using me by (simp add: mantissa_zero)
    next
      case False show ?thesis by (rule mantissa_range(2)[OF False me])
    qed
    show "x \<noteq> 0 \<longrightarrow> 10 ^ 6 \<le> m" using mantissa_range(1)[OF _ me] by blast
  qed
  from mantissa_str_shape[OF m7] obtain d ds where
    ms: "mantissa_str m = d # CHR ''.'' # ds" "is_digit d" "list_all is_digit ds"
      "length ds = 6" "digits_val (d # ds) = m" "10 ^ 6 \<le> m \<longrightarrow> d \<noteq> CHR ''0''"
    by blast
  from exponent_str_shape[of e] obtain c es where
    es: "exponent_str e = c # es" "c = CHR ''+'' \<or> c = CHR ''-''" "c = CHR ''-'' \<longleftrightarrow> e < 0"
      "list_all is_digit es" "2 \<le> length es" "digits_val es = nat \<bar>e\<bar>"
    by blast
  have ev: "(if c = CHR ''-'' then - int (digits_val es) else int (digits_val es)) = e"
    using es(3,6) by auto
  have f: "format_6E x = (if x < 0 then ''-'' else []) @ d # CHR ''.'' # ds @ CHR ''E'' # c # es"
    by (simp add: format_6E_def me ms(1) es(1))
  have r: "round_6E x = (if x < 0 then - 1 else 1) * of_nat (digits_val (d # ds))
        * pow10 ((if c = CHR ''-'' then - int (digits_val es) else int (digits_val es)) - 6)"
    unfolding ev ms(5) by (simp add: round_6E_def me)
  show ?thesis using f ms(2,3,4) es(2,4,5) m6 ms(6) r by blast
qed

lemma takeWhile_digits:
  assumes "list_all is_digit xs" "\<not> is_digit y"
  shows "takeWhile is_digit (xs @ y # ys) = xs" "dropWhile is_digit (xs @ y # ys) = y # ys"
  using assms by (simp_all add: list_all_iff takeWhile_append2 dropWhile_append2)

lemma parse_float_format_6E: "parse_float (format_6E x) = Some (round_6E x)"
proof -
  from format_6E_shape[of x] obtain d ds c es where
    f: "format_6E x = (if x < 0 then ''-'' else []) @ d # CHR ''.'' # ds @ CHR ''E'' # c # es"
    and d: "is_digit d" and ds: "list_all is_digit ds" "length ds = 6"
    and c: "c = CHR ''+'' \<or> c = CHR ''-''" and es: "list_all is_digit es" "2 \<le> length es"
    and r: "round_6E x = (if x < 0 then - 1 else 1) * of_nat (digits_val (d # ds))
        * pow10 ((if c = CHR ''-'' then - int (digits_val es) else int (digits_val es)) - 6)"
    by blast
  define body where "body = d # CHR ''.'' # ds @ CHR ''E'' # c # es"
  have dm: "d \<noteq> CHR ''-''" using d is_digit_not_special(3) by auto
  have neg: "(format_6E x \<noteq> [] \<and> hd (format_6E x) = CHR ''-'') \<longleftrightarrow> x < 0"
    using dm by (simp add: f)
  have rest: "(if x < 0 then tl (format_6E x) else format_6E x) = body"
    by (simp add: f body_def)
  have t1: "takeWhile is_digit body = [d]" "dropWhile is_digit body = CHR ''.'' # ds @ CHR ''E'' # c # es"
    using takeWhile_digits[of "[d]" "CHR ''.''" "ds @ CHR ''E'' # c # es"] d is_digit_not_special(1)
    by (simp_all add: body_def)
  have t2: "takeWhile is_digit (ds @ CHR ''E'' # c # es) = ds"
    "dropWhile is_digit (ds @ CHR ''E'' # c # es) = CHR ''E'' # c # es"
    using takeWhile_digits[OF ds(1) is_digit_not_special(2)] by simp_all
  have ene: "es \<noteq> []" using es(2) by auto
  have "parse_float (format_6E x) =
          Some ((if x < 0 then - 1 else 1) * of_nat (digits_val ([d] @ ds))
                 * pow10 ((if c = CHR ''-'' then - int (digits_val es) else int (digits_val es))
                          - int (length ds)))"
    unfolding parse_float_def Let_def neg rest t1 list.case t2
    using c es(1) ene by simp
  then show ?thesis using r ds(2) by simp
qed

lemma format_6E_chars:
  assumes "ch \<in> set (format_6E x)"
  shows "is_digit ch \<or> ch = CHR ''-'' \<or> ch = CHR ''.'' \<or> ch = CHR ''E'' \<or> ch = CHR ''+''"
proof -
  from format_6E_shape[of x] obtain d ds c es where
    f: "format_6E x = (if x < 0 then ''-'' else []) @ d # CHR ''.'' # ds @ CHR ''E'' # c # es"
    and d: "is_digit d" and ds: "list_all is_digit ds"
    and c: "c = CHR ''+'' \<or> c = CHR ''-''" and es: "list_all is_digit es"
    by blast
  show ?thesis using assms d ds c es unfolding f by (auto simp: list_all_iff split: if_splits)
qed

lemma format_6E_token:
  "format_6E x \<noteq> []" "CHR '' '' \<notin> set (format_6E x)" "nl \<notin> set (format_6E x)"
  "hd (format_6E x) \<noteq> CHR ''#''"
proof -
  from format_6E_shape[of x] obtain d ds c es where
    f: "format_6E x = (if x < 0 then ''-'' else []) @ d # CHR ''.'' # ds @ CHR ''E'' # c # es"
    and d: "is_digit d" by blast
  show "format_6E x \<noteq> []" by (simp add: f)
  show "CHR '' '' \<notin> set (format_6E x)"
    using format_6E_chars[of "CHR '' ''" x] is_digit_not_special by auto
  show "nl \<notin> set (format_6E x)"
    using format_6E_chars[of nl x] is_digit_not_special by (auto simp: nl_def)
  show "hd (format_6E x) \<noteq> CHR ''#''"
    using d is_digit_not_special(7) by (auto simp: f)
qed

subsection \<open>Lines and words\<close>

lemma lines_acc_line:
  "nl \<notin> set l \<Longrightarrow> lines_acc cur (l @ nl # rest) = (cur @ l) # lines_acc [] rest"
  by (induction l arbitrary: cur) auto

lemma lines_acc_concat:
  "(\<And>l. l \<in> set ls \<Longrightarrow> nl \<notin> set l) \<Longrightarrow>
     lines_acc [] (concat (map (\<lambda>l. l @ [nl]) ls) @ rest) = ls @ lines_acc [] rest"
proof (induction ls)
  case (Cons l ls)
  have "lines_acc [] ((l @ nl # concat (map (\<lambda>l. l @ [nl]) ls)) @ rest)
          = l # lines_acc [] (concat (map (\<lambda>l. l @ [nl]) ls) @ rest)"
    using lines_acc_line[of l "[]"] Cons.prems by simp
  then show ?case using Cons by simp
qed simp

lemma split_lines_terminated:
  "(\<And>l. l \<in> set ls \<Longrightarrow> nl \<notin> set l) \<Longrightarrow>
     split_lines (concat (map (\<lambda>l. l @ [nl]) ls)) = ls"
  using lines_acc_concat[of ls "[]"] by (simp add: split_lines_def)

lemma words_acc_end:
  "CHR '' '' \<notin> set t \<Longrightarrow> words_acc cur t = (if cur @ t = [] then [] else [cur @ t])"
  by (induction t arbitrary: cur) auto

lemma words_acc_token:
  "CHR '' '' \<notin> set t \<Longrightarrow>
     words_acc cur (t @ CHR '' '' # rest)
       = (if cur @ t = [] then words_acc [] rest else (cur @ t) # words_acc [] rest)"
  by (induction t arbitrary: cur) auto

lemma split_words_join:
  "(\<And>t. t \<in> set ts \<Longrightarrow> t \<noteq> [] \<and> CHR '' '' \<notin> set t) \<Longrightarrow> split_words (join '' '' ts) = ts"
proof (induction "'' ''" ts rule: join.induct)
  case 1
  then show ?case by (simp add: split_words_def)
next
  case (2 x)
  then show ?case using words_acc_end[of x "[]"] by (simp add: split_words_def)
next
  case (3 x y ys)
  have x: "x \<noteq> []" "CHR '' '' \<notin> set x" using "3.prems" by auto
  have "words_acc [] (x @ CHR '' '' # join '' '' (y # ys)) = x # words_acc [] (join '' '' (y # ys))"
    using words_acc_token[OF x(2), of "[]"] x(1) by simp
  moreover have "split_words (join '' '' (y # ys)) = y # ys" using 3 by simp
  ultimately show ?case by (simp add: split_words_def)
qed

lemma set_join: "set (join sep ts) \<subseteq> set sep \<union> (\<Union>t \<in> set ts. set t)"
  by (induction sep ts rule: join.induct) auto

lemma join_nonempty: "ts \<noteq> [] \<Longrightarrow> hd ts \<noteq> [] \<Longrightarrow> join sep ts \<noteq> [] \<and> hd (join sep ts) = hd (hd ts)"
  by (induction sep ts rule: join.induct) auto


subsection \<open>Formatted examples\<close>

lemmas nat_str_eval = nat_str_small nat_str_large digit_char_def

lemma format_6E_value:
  assumes "0 < x" "exponent10 x = e" "py_round (x / pow10 e * 10 ^ 6) = int m" "m \<noteq> 10 ^ 7"
  shows "format_6E x = mantissa_str m @ ''E'' @ exponent_str e"
  using assms by (simp add: format_6E_def mantissa_exponent_def Let_def)

lemmas format_eval = exponent10_def exponent_up_small exponent_up_large exponent_down_stop
  exponent_down_step pow10_def py_round_def mantissa_str_def exponent_str_def nat_str_eval

lemma format_6E_examples:
  "format_6E (4000) = ''4.000000E+03''"
  "format_6E (5000) = ''5.000000E+03''"
  "format_6E (2) = ''2.000000E+00''"
  "format_6E (3) = ''3.000000E+00''"
  "format_6E (5) = ''5.000000E+00''"
  "format_6E (7) = ''7.000000E+00''"
  "format_6E (1000) = ''1.000000E+03''"
  "format_6E (2000) = ''2.000000E+03''"
  "format_6E (1 / 4) = ''2.500000E-01''"
  "format_6E (1 / 2) = ''5.000000E-01''"
  "format_6E (3 / 4) = ''7.500000E-01''"
  "format_6E (1234567 / 1000) = ''1.234567E+03''"
  subgoal using format_6E_value[of "4000" "3" 4000000] by (simp add: format_eval)
  subgoal using format_6E_value[of "5000" "3" 5000000] by (simp add: format_eval)
  subgoal using format_6E_value[of "2" "0" 2000000] by (simp add: format_eval)
  subgoal using format_6E_value[of "3" "0" 3000000] by (simp add: format_eval)
  subgoal using format_6E_value[of "5" "0" 5000000] by (simp add: format_eval)
  subgoal using format_6E_value[of "7" "0" 7000000] by (simp add: format_eval)
  subgoal using format_6E_value[of "1000" "3" 1000000] by (simp add: format_eval)
  subgoal using format_6E_value[of "2000" "3" 2000000] by (simp add: format_eval)
  subgoal using format_6E_value[of "1 / 4" "-1" 2500000] by (simp add: format_eval)
  subgoal using format_6E_value[of "1 / 2" "-1" 5000000] by (simp add: format_eval)
  subgoal using format_6E_value[of "3 / 4" "-1" 7500000] by (simp add: format_eval)
  subgoal using format_6E_value[of "1234567 / 1000" "3" 1234567] by (simp add: format_eval)
  done


subsection \<open>The base format\<close>

lemma csv_row_no_nl: "(\<And>f. f \<in> set fs \<Longrightarrow> nl \<notin> set f) \<Longrightarrow> nl \<notin> set (csv_row fs)"
  using set_join[of "'' ''" fs] by (auto simp: csv_row_def nl_def)

lemma format_cell_no_nl: "nl \<notin> set (format_cell c)"
  by (cases c) (simp_all add: format_cell_def format_6E_token)

lemma table_line_no_nl: "nl \<notin> set (csv_row (map format_cell cells))"
  by (rule csv_row_no_nl) (auto simp: format_cell_no_nl)

lemma class_column_description_no_nl: "nl \<notin> set (class_column_description c)"
  by (cases c) (simp_all add: nl_def)

lemma nat_str_no_nl: "nl \<notin> set (nat_str n)"
  using nat_str_digits[of n] is_digit_not_special(6) by (auto simp: list_all_iff)

lemma times_str_no_nl:
  "(\<And>t. nl \<notin> set (float_str t)) \<Longrightarrow> nl \<notin> set (times_str float_str ts)"
  using set_join[of "'' ''" "map float_str ts"] by (auto simp: times_str_def nl_def)

lemma first_column_name_no_nl: "nl \<notin> set (first_column_name c)"
  by (cases c) (simp_all add: nl_def)

lemma write_header_lines:
  "write_header float_str self w = concat (map (\<lambda>l. l @ [nl]) (header_lines float_str self w))"
  by (simp add: write_header_def header_lines_def)

lemma to_csv_lines: "to_csv df = concat (map (\<lambda>l. l @ [nl]) (table_lines df))"
  by (simp add: to_csv_def table_lines_def o_def)

lemma header_lines_no_nl:
  assumes "\<And>t. nl \<notin> set (float_str t)" "l \<in> set (header_lines float_str self w)"
  shows "nl \<notin> set l"
  using assms(2) nat_str_no_nl first_column_name_no_nl class_column_description_no_nl
    times_str_no_nl[of float_str, OF assms(1)]
  by (auto simp: header_lines_def nl_def)

lemma table_lines_no_nl: "l \<in> set (table_lines df) \<Longrightarrow> nl \<notin> set l"
  by (auto simp: table_lines_def table_line_no_nl)

lemma split_lines_file:
  assumes "\<And>t. nl \<notin> set (float_str t)"
  shows "split_lines (write_header float_str self w @ to_csv df)
           = header_lines float_str self w @ table_lines df"
proof -
  have eq: "write_header float_str self w @ to_csv df
          = concat (map (\<lambda>l. l @ [nl]) (header_lines float_str self w @ table_lines df))"
    by (simp add: write_header_lines to_csv_lines)
  have nn: "nl \<notin> set l" if "l \<in> set (header_lines float_str self w @ table_lines df)" for l
    using that header_lines_no_nl[of float_str _ self w, OF assms] table_lines_no_nl by auto
  have "split_lines (concat (map (\<lambda>l. l @ [nl]) (header_lines float_str self w @ table_lines df)))
          = header_lines float_str self w @ table_lines df"
    by (rule split_lines_terminated) (rule nn)
  then show ?thesis unfolding eq .
qed

lemma split_words_row:
  assumes "vals \<noteq> []"
  shows "split_words (csv_row (map format_cell (map Some vals))) = map format_6E vals"
proof -
  have m: "map format_cell (map Some vals) = map format_6E vals"
    by (simp add: format_cell_def o_def)
  have "map format_6E vals \<noteq> [[]]" using format_6E_token(1) by (cases vals) auto
  then have "csv_row (map format_6E vals) = join '' '' (map format_6E vals)"
    by (simp add: csv_row_def)
  moreover have "split_words (join '' '' (map format_6E vals)) = map format_6E vals"
    by (rule split_words_join) (auto simp: format_6E_token)
  ultimately show ?thesis unfolding m by simp
qed

lemma example_float_str_no_nl: "nl \<notin> set (example_float_str t)"
  using nat_str_no_nl by (simp add: example_float_str_def nl_def)

lemma example_float_str_values:
  "example_float_str 10 = ''10.0''" "example_float_str 12 = ''12.0''"
  by (simp_all add: example_float_str_def nat_str_eval)

lemma example_table_lines:
  "table_lines example_frame = [''1.000000E+03 1.234567E+03'', ''2.000000E+03 5.000000E-01'']"
  by (simp add: table_lines_def example_frame_def table_row_def format_cell_def csv_row_def
      format_6E_examples upt_conv_Cons)

lemma example_header_lines:
  "header_lines example_float_str example_tgas_file example_write_world
     = [''#NTIMES: 1'', ''#NVEL: 2'', ''#TIMES[d]: 10.0'',
        ''#vel_mid[km/s] Tgas_t0[K] Tgas_t1[K] ... Tgas_tn[K]'']"
  by (simp add: header_lines_def example_tgas_file_def example_write_world_def example_frame_def
      len_table_def times_str_def example_float_str_values nat_str_eval)

lemma example_path: "os_path_join ''out'' (fname example_tgas_file) = ''out/tgas_toy_tardis.txt''"
  by (simp add: os_path_join_def fname_def example_tgas_file_def)


text \<open>
  C8 (amended). For an exporter of class \<open>SpectralOutputFile\<close>, \<open>TGasOutputFile\<close> or
  \<open>EdenOutputFile\<close> whose table is a frame, and a path that can be opened, \<open>write\<close>
  succeeds and the file consists of these lines, each ended by a newline, in this
  order: \<open>#NTIMES: \<close> and the number of times; \<open>#NWAVE: \<close> (spectra) or \<open>#NVEL: \<close> and the
  number of rows; \<open>#TIMES[d]: \<close> and the times joined by blanks; the description of the
  class; then one line per row of the table in table order, with no header and no
  index. A row without missing cells splits at blanks into the formatted cells of the
  row. Every number has the form of \<^verbatim>\<open>%.6E\<close>: an optional minus sign, one digit (not
  zero unless the number is zero), the point, six digits, \<open>E\<close>, a sign and at least two
  exponent digits, that is seven significant digits.
\<close>

theorem write_base_format_lines:
  assumes c: "cls self = SpectralOutputFile \<or> cls self = TGasOutputFile \<or> cls self = EdenOutputFile"
    and tab: "data_table self = FrameRef r"
    and op: "can_open w (os_path_join dest (fname self))"
    and fs: "\<forall>t. nl \<notin> set (float_str t)"
  shows "\<exists>content.
    CodeComparisonOutputFile_write float_str self dest w
      = (Inr (), w\<lparr>files := (files w)(os_path_join dest (fname self) \<mapsto> content)\<rparr>) \<and>
    split_lines content =
      [''#NTIMES: '' @ nat_str (length (times_d self)),
       ''#N'' @ (if cls self = SpectralOutputFile then ''WAVE'' else ''VEL'') @ '': ''
         @ nat_str (index_len (frames w r)),
       ''#TIMES[d]: '' @ join '' '' (map float_str (times_d self)),
       class_column_description (cls self)]
      @ map (\<lambda>i. csv_row (map format_cell (table_row (frames w r) i))) [0..<index_len (frames w r)] \<and>
    content = concat (map (\<lambda>l. l @ [nl]) (split_lines content)) \<and>
    (\<forall>i vals. i < index_len (frames w r) \<longrightarrow> table_row (frames w r) i = map Some vals \<longrightarrow> vals \<noteq> [] \<longrightarrow>
       split_words (csv_row (map format_cell (table_row (frames w r) i))) = map format_6E vals) \<and>
    (\<forall>x. \<exists>d ds c es.
       format_6E x = (if x < 0 then ''-'' else []) @ d # CHR ''.'' # ds @ CHR ''E'' # c # es \<and>
       is_digit d \<and> (x \<noteq> 0 \<longrightarrow> d \<noteq> CHR ''0'') \<and> list_all is_digit ds \<and> length ds = 6 \<and>
       (c = CHR ''+'' \<or> c = CHR ''-'') \<and> list_all is_digit es \<and> 2 \<le> length es)"
proof -
  define content where "content = write_header float_str self w @ to_csv (frames w r)"
  have w: "CodeComparisonOutputFile_write float_str self dest w
      = (Inr (), w\<lparr>files := (files w)(os_path_join dest (fname self) \<mapsto> content)\<rparr>)"
    using tab op by (simp add: CodeComparisonOutputFile_write_def content_def)
  have fcn: "first_column_name (cls self) = (if cls self = SpectralOutputFile then ''WAVE'' else ''VEL'')"
    using c by auto
  have sl: "split_lines content = header_lines float_str self w @ table_lines (frames w r)"
    unfolding content_def using fs by (intro split_lines_file) simp
  have lines: "split_lines content =
      [''#NTIMES: '' @ nat_str (length (times_d self)),
       ''#N'' @ (if cls self = SpectralOutputFile then ''WAVE'' else ''VEL'') @ '': ''
         @ nat_str (index_len (frames w r)),
       ''#TIMES[d]: '' @ join '' '' (map float_str (times_d self)),
       class_column_description (cls self)]
      @ map (\<lambda>i. csv_row (map format_cell (table_row (frames w r) i))) [0..<index_len (frames w r)]"
    unfolding sl header_lines_def table_lines_def fcn
    by (simp add: tab len_table_def times_str_def)
  have cc: "content = concat (map (\<lambda>l. l @ [nl]) (split_lines content))"
    unfolding sl by (simp add: content_def write_header_lines to_csv_lines)
  have words: "\<forall>i vals. i < index_len (frames w r) \<longrightarrow> table_row (frames w r) i = map Some vals \<longrightarrow>
       vals \<noteq> [] \<longrightarrow>
       split_words (csv_row (map format_cell (table_row (frames w r) i))) = map format_6E vals"
    using split_words_row by simp
  have shape: "\<forall>x. \<exists>d ds c es.
       format_6E x = (if x < 0 then ''-'' else []) @ d # CHR ''.'' # ds @ CHR ''E'' # c # es \<and>
       is_digit d \<and> (x \<noteq> 0 \<longrightarrow> d \<noteq> CHR ''0'') \<and> list_all is_digit ds \<and> length ds = 6 \<and>
       (c = CHR ''+'' \<or> c = CHR ''-'') \<and> list_all is_digit es \<and> 2 \<le> length es"
  proof
    fix x
    from format_6E_shape[of x] obtain d ds c es where
      "format_6E x = (if x < 0 then ''-'' else []) @ d # CHR ''.'' # ds @ CHR ''E'' # c # es"
      "is_digit d" "list_all is_digit ds" "length ds = 6" "c = CHR ''+'' \<or> c = CHR ''-''"
      "list_all is_digit es" "2 \<le> length es" "x \<noteq> 0 \<longrightarrow> d \<noteq> CHR ''0''"
      by (elim exE conjE) (rule that)
    then show "\<exists>d ds c es.
       format_6E x = (if x < 0 then ''-'' else []) @ d # CHR ''.'' # ds @ CHR ''E'' # c # es \<and>
       is_digit d \<and> (x \<noteq> 0 \<longrightarrow> d \<noteq> CHR ''0'') \<and> list_all is_digit ds \<and> length ds = 6 \<and>
       (c = CHR ''+'' \<or> c = CHR ''-'') \<and> list_all is_digit es \<and> 2 \<le> length es"
      by (intro exI conjI)
  qed
  from w lines cc words shape show ?thesis by (intro exI[of _ content] conjI)
qed

theorem write_base_format_lines_witness:
  "(cls example_tgas_file = SpectralOutputFile \<or> cls example_tgas_file = TGasOutputFile
      \<or> cls example_tgas_file = EdenOutputFile) \<and>
   data_table example_tgas_file = FrameRef 0 \<and>
   can_open example_write_world ''out/tgas_toy_tardis.txt'' \<and>
   (\<forall>t. nl \<notin> set (example_float_str t)) \<and>
   (\<exists>content.
      CodeComparisonOutputFile_write example_float_str example_tgas_file ''out'' example_write_world
        = (Inr (), example_write_world\<lparr>files :=
             (files example_write_world)(''out/tgas_toy_tardis.txt'' \<mapsto> content)\<rparr>) \<and>
      split_lines content =
        [''#NTIMES: 1'', ''#NVEL: 2'', ''#TIMES[d]: 10.0'',
         ''#vel_mid[km/s] Tgas_t0[K] Tgas_t1[K] ... Tgas_tn[K]'',
         ''1.000000E+03 1.234567E+03'', ''2.000000E+03 5.000000E-01''])"
proof -
  have c: "cls example_tgas_file = SpectralOutputFile \<or> cls example_tgas_file = TGasOutputFile
      \<or> cls example_tgas_file = EdenOutputFile"
    and tab: "data_table example_tgas_file = FrameRef 0"
    by (simp_all add: example_tgas_file_def)
  have op: "can_open example_write_world (os_path_join ''out'' (fname example_tgas_file))"
    by (simp add: example_write_world_def empty_world_def)
  have fs: "\<forall>t. nl \<notin> set (example_float_str t)" using example_float_str_no_nl by simp
  from write_base_format_lines[OF c tab op fs] obtain content where
    w: "CodeComparisonOutputFile_write example_float_str example_tgas_file ''out'' example_write_world
      = (Inr (), example_write_world\<lparr>files :=
           (files example_write_world)(os_path_join ''out'' (fname example_tgas_file) \<mapsto> content)\<rparr>)"
    and l: "split_lines content =
      [''#NTIMES: '' @ nat_str (length (times_d example_tgas_file)),
       ''#N'' @ (if cls example_tgas_file = SpectralOutputFile then ''WAVE'' else ''VEL'') @ '': ''
         @ nat_str (index_len (frames example_write_world 0)),
       ''#TIMES[d]: '' @ join '' '' (map example_float_str (times_d example_tgas_file)),
       class_column_description (cls example_tgas_file)]
      @ map (\<lambda>i. csv_row (map format_cell (table_row (frames example_write_world 0) i)))
          [0..<index_len (frames example_write_world 0)]"
    by (elim exE conjE) (rule that)
  have fr: "frames example_write_world 0 = example_frame" by (simp add: example_write_world_def)
  have body: "map (\<lambda>i. csv_row (map format_cell (table_row example_frame i)))
          [0..<index_len example_frame]
        = [''1.000000E+03 1.234567E+03'', ''2.000000E+03 5.000000E-01'']"
    using example_table_lines by (simp add: table_lines_def)
  have l': "split_lines content =
        [''#NTIMES: 1'', ''#NVEL: 2'', ''#TIMES[d]: 10.0'',
         ''#vel_mid[km/s] Tgas_t0[K] Tgas_t1[K] ... Tgas_tn[K]'',
         ''1.000000E+03 1.234567E+03'', ''2.000000E+03 5.000000E-01'']"
    unfolding l fr body
    by (simp add: example_tgas_file_def example_frame_def example_float_str_values nat_str_eval)
  have op': "can_open example_write_world ''out/tgas_toy_tardis.txt''"
    using op by (simp only: example_path)
  from w l' c tab op' fs show ?thesis unfolding example_path by (intro conjI exI[of _ content])
qed


text \<open>
  C8 as stated fails in the number of digits: the cell 1234.567 is written as
  \<open>1.234567E+03\<close>, with seven significant digits and not six.
\<close>

theorem write_six_significant_digits_counterexample:
  "files (snd (CodeComparisonOutputFile_write example_float_str example_tgas_file ''out''
                 example_write_world)) ''out/tgas_toy_tardis.txt''
     = Some (''#NTIMES: 1'' @ [nl] @ ''#NVEL: 2'' @ [nl] @ ''#TIMES[d]: 10.0'' @ [nl]
             @ ''#vel_mid[km/s] Tgas_t0[K] Tgas_t1[K] ... Tgas_tn[K]'' @ [nl]
             @ ''1.000000E+03 1.234567E+03'' @ [nl] @ ''2.000000E+03 5.000000E-01'' @ [nl]) \<and>
   significant_digits ''1.234567E+03'' = 7 \<and>
   \<not> significant_digits ''1.234567E+03'' = 6"
proof -
  have "CodeComparisonOutputFile_write example_float_str example_tgas_file ''out'' example_write_world
      = (Inr (), example_write_world\<lparr>files := (files example_write_world)(''out/tgas_toy_tardis.txt''
           \<mapsto> write_header example_float_str example_tgas_file example_write_world
               @ to_csv example_frame)\<rparr>)"
    using example_path
    by (simp add: CodeComparisonOutputFile_write_def example_tgas_file_def example_write_world_def
        empty_world_def)
  moreover have "write_header example_float_str example_tgas_file example_write_world
      = ''#NTIMES: 1'' @ [nl] @ ''#NVEL: 2'' @ [nl] @ ''#TIMES[d]: 10.0'' @ [nl]
             @ ''#vel_mid[km/s] Tgas_t0[K] Tgas_t1[K] ... Tgas_tn[K]'' @ [nl]"
    by (simp add: write_header_lines example_header_lines)
  moreover have "to_csv example_frame
      = ''1.000000E+03 1.234567E+03'' @ [nl] @ ''2.000000E+03 5.000000E-01'' @ [nl]"
    by (simp add: to_csv_lines example_table_lines)
  moreover have "significant_digits ''1.234567E+03'' = 7"
    by (simp add: significant_digits_def is_digit_def)
  ultimately show ?thesis by simp
qed


subsection \<open>The ionisation-fraction exporter\<close>

lemma init_keeps_files:
  "CodeComparisonOutputFile_init c ts table name col w = (res, w') \<Longrightarrow>
     files w' = files w \<and> can_open w' = can_open w"
  by (auto simp: CodeComparisonOutputFile_init_def Let_def split: option.splits table_ref.splits sum.splits)

text \<open>
  C7. When the species symbol is not in the nuclide table, the constructor of
  \<open>IonFracOutputFile\<close> raises and returns no object, so that \<open>write\<close> cannot be called
  on it, and the file system is as before. The exception is the KeyError of the
  lookup whenever the constructor of the base class, which runs first, has succeeded
  (as it does when no first column is passed; then the store is unchanged too).
\<close>

theorem unknown_species_fails_before_any_file:
  assumes "name_zz sp = None"
  shows "\<exists>e w'. IonFracOutputFile_init name_zz ts table name col vm sp w = (Inl e, w') \<and>
           files w' = files w \<and>
           (\<forall>base w1. CodeComparisonOutputFile_init IonFracOutputFile ts table name col w = (Inr base, w1)
              \<longrightarrow> e = KeyError) \<and>
           (col = None \<longrightarrow> e = KeyError \<and> w' = w)"
proof -
  obtain res w1 where b: "CodeComparisonOutputFile_init IonFracOutputFile ts table name col w = (res, w1)"
    by (cases "CodeComparisonOutputFile_init IonFracOutputFile ts table name col w")
  have f: "files w1 = files w" using init_keeps_files[OF b] by simp
  show ?thesis
  proof (cases res)
    case (Inl e)
    then have "IonFracOutputFile_init name_zz ts table name col vm sp w = (Inl e, w1)"
      using b by (simp add: IonFracOutputFile_init_def)
    moreover have "col \<noteq> None" using b Inl
      by (cases col) (simp_all add: CodeComparisonOutputFile_init_def Let_def)
    ultimately show ?thesis using f b Inl by auto
  next
    case (Inr base)
    then have "IonFracOutputFile_init name_zz ts table name col vm sp w = (Inl KeyError, w1)"
      using b assms by (simp add: IonFracOutputFile_init_def)
    moreover have "col = None \<longrightarrow> w1 = w" using b
      by (auto simp: CodeComparisonOutputFile_init_def Let_def)
    ultimately show ?thesis using f by auto
  qed
qed

theorem unknown_species_fails_before_any_file_witness:
  "example_name_zz ''Xx'' = None \<and>
   IonFracOutputFile_init example_name_zz [10] (FrameList [example_ion_table]) ''toy'' None
       [1000, 2000] ''Xx'' empty_world = (Inl KeyError, empty_world) \<and>
   files empty_world = Map.empty"
proof -
  have n: "example_name_zz ''Xx'' = None" by (simp add: example_name_zz_def)
  from unknown_species_fails_before_any_file[of example_name_zz "''Xx''" "[10]"
      "FrameList [example_ion_table]" "''toy''" None "[1000, 2000]" empty_world, OF n]
  have "IonFracOutputFile_init example_name_zz [10] (FrameList [example_ion_table]) ''toy'' None
       [1000, 2000] ''Xx'' empty_world = (Inl KeyError, empty_world)"
    by auto
  then show ?thesis using n by (simp add: empty_world_def)
qed

lemma ion_columns_calcium:
  "ion_columns ''Ca'' 20 = ''Ca0 Ca1 Ca2 Ca3 Ca4 Ca5 Ca6 Ca7 Ca8 Ca9 Ca10 Ca11 Ca12 Ca13 Ca14 Ca15 Ca16 Ca17 Ca18 Ca19''"
  by (simp add: ion_columns_def upt_conv_Cons nat_str_eval)

lemma init_calcium:
  "IonFracOutputFile_init example_name_zz [10] (FrameList [example_ion_table]) ''toy'' None
      [1000, 2000] ''Ca'' empty_world = (Inr example_calcium_file, empty_world)"
  by (simp add: IonFracOutputFile_init_def CodeComparisonOutputFile_init_def example_name_zz_def
      ion_columns_calcium example_calcium_file_def)

lemma init_hydrogen:
  "IonFracOutputFile_init example_name_zz [10] (FrameList [example_ion_table]) ''toy'' None
      [1000, 2000] ''H'' empty_world = (Inr example_hydrogen_file, empty_world)"
  by (simp add: IonFracOutputFile_init_def CodeComparisonOutputFile_init_def example_name_zz_def
      ion_columns_def upt_conv_Cons nat_str_eval example_hydrogen_file_def)

lemma hydrogen_frame:
  "loc_T 1 example_ion_table
     = Inr \<lparr>index_len = 2, columns = [(IntLabel 0, [Some (1 / 4), Some (1 / 2)]),
                                        (IntLabel 1, [Some (3 / 4), Some (1 / 2)])]\<rparr>"
  by (simp add: loc_T_def example_ion_table_def)

lemma hydrogen_body:
  "to_csv \<lparr>index_len = 2, columns = [(StrLabel ''vel_mid'', [Some 1000, Some 2000]),
                                      (IntLabel 0, [Some (1 / 4), Some (1 / 2)]),
                                      (IntLabel 1, [Some (3 / 4), Some (1 / 2)])]\<rparr>
     = ''1.000000E+03 2.500000E-01 7.500000E-01'' @ [nl]
       @ ''2.000000E+03 5.000000E-01 5.000000E-01'' @ [nl]"
  by (simp add: to_csv_def table_row_def format_cell_def csv_row_def format_6E_examples
      upt_conv_Cons)

lemma hydrogen_block:
  "ion_block example_float_str example_hydrogen_file empty_world 0 10
     = (''#TIME: 10.0'' @ [nl] @ ''#NVEL: 2'' @ [nl] @ ''#vel_mid[km/s] H0'' @ [nl]
        @ ''1.000000E+03 2.500000E-01 7.500000E-01'' @ [nl]
        @ ''2.000000E+03 5.000000E-01 5.000000E-01'' @ [nl], None)"
  using hydrogen_body[simplified]
  by (simp add: ion_block_def example_hydrogen_file_def hydrogen_frame[simplified]
      DataFrame_insert_def example_float_str_values nat_str_eval)


lemma nat_str_no_blank: "CHR '' '' \<notin> set (nat_str n)"
  using nat_str_digits[of n] is_digit_not_special(5) by (auto simp: list_all_iff)

text \<open>For every species the header names the velocity and then exactly as many stages
  as the atomic number, the last one being stage \<open>z - 1\<close>.\<close>
lemma ionfrac_header_columns:
  assumes z: "name_zz sp = Some z" and sp: "sp \<noteq> []" "CHR '' '' \<notin> set sp"
  shows "\<exists>self. IonFracOutputFile_init name_zz ts (FrameList tables) name None vm sp w = (Inr self, w) \<and>
           species_num self = z \<and>
           split_words (column_description self)
             = ''#vel_mid[km/s]'' # map (\<lambda>i. sp @ nat_str i) [0..<z] \<and>
           length (split_words (column_description self)) = z + 1"
proof -
  define self where "self = \<lparr>cls = IonFracOutputFile, times_d = ts, data_table = FrameList tables,
      model_name = name, species = sp, vel_mid = vm, species_num = z,
      column_description = join '' '' [class_column_description IonFracOutputFile, ion_columns sp z]\<rparr>"
  have i: "IonFracOutputFile_init name_zz ts (FrameList tables) name None vm sp w = (Inr self, w)"
    using z by (simp add: IonFracOutputFile_init_def CodeComparisonOutputFile_init_def self_def)
  let ?names = "map (\<lambda>i. sp @ nat_str i) [0..<z]"
  have tok: "\<And>t. t \<in> set ?names \<Longrightarrow> t \<noteq> [] \<and> CHR '' '' \<notin> set t"
    using sp nat_str_no_blank by auto
  have "column_description self = ''#vel_mid[km/s]'' @ CHR '' '' # join '' '' ?names"
    by (simp add: self_def ion_columns_def)
  then have "split_words (column_description self)
      = ''#vel_mid[km/s]'' # words_acc [] (join '' '' ?names)"
    using words_acc_token[of "''#vel_mid[km/s]''" "[]" "join '' '' ?names"]
    by (simp add: split_words_def)
  also have "words_acc [] (join '' '' ?names) = ?names"
    using split_words_join[of ?names, OF tok] by (simp add: split_words_def)
  finally have w: "split_words (column_description self) = ''#vel_mid[km/s]'' # ?names" .
  have "species_num self = z" by (simp add: self_def)
  with i w show ?thesis by (intro exI[of _ self]) simp
qed

text \<open>
  C1 does not hold for the code. The header is built from \<open>range(species_num)\<close>: for
  calcium (atomic number 20) it names \<open>Ca0\<close> to \<open>Ca19\<close>, twenty stages and not
  twenty-one. For hydrogen the file shows the consequence: the header names \<open>H0\<close> only
  and \<open>#NSTAGES\<close> is 1, while every row below carries the velocity and the two
  populations (neutral and ionised) that the table holds for the element.
\<close>

theorem ionfrac_header_omits_last_stage:
  "IonFracOutputFile_init example_name_zz [10] (FrameList [example_ion_table]) ''toy'' None
      [1000, 2000] ''Ca'' empty_world = (Inr example_calcium_file, empty_world) \<and>
   split_words (column_description example_calcium_file)
     = [''#vel_mid[km/s]'', ''Ca0'', ''Ca1'', ''Ca2'', ''Ca3'', ''Ca4'', ''Ca5'', ''Ca6'', ''Ca7'',
        ''Ca8'', ''Ca9'', ''Ca10'', ''Ca11'', ''Ca12'', ''Ca13'', ''Ca14'', ''Ca15'', ''Ca16'',
        ''Ca17'', ''Ca18'', ''Ca19''] \<and>
   IonFracOutputFile_init example_name_zz [10] (FrameList [example_ion_table]) ''toy'' None
      [1000, 2000] ''H'' empty_world = (Inr example_hydrogen_file, empty_world) \<and>
   IonFracOutputFile_write example_float_str example_hydrogen_file ''out'' empty_world
     = (Inr (), empty_world\<lparr>files := [''out/ionfrac_H_toy_tardis.txt'' \<mapsto>
          ''#NTIMES: 1'' @ [nl] @ ''#NSTAGES: 1'' @ [nl] @ ''#TIMES[d]: 10.0'' @ [nl] @ ''#'' @ [nl]
          @ ''#TIME: 10.0'' @ [nl] @ ''#NVEL: 2'' @ [nl] @ ''#vel_mid[km/s] H0'' @ [nl]
          @ ''1.000000E+03 2.500000E-01 7.500000E-01'' @ [nl]
          @ ''2.000000E+03 5.000000E-01 5.000000E-01'' @ [nl]]\<rparr>)"
proof -
  have w: "split_words (column_description example_calcium_file)
     = [''#vel_mid[km/s]'', ''Ca0'', ''Ca1'', ''Ca2'', ''Ca3'', ''Ca4'', ''Ca5'', ''Ca6'', ''Ca7'',
        ''Ca8'', ''Ca9'', ''Ca10'', ''Ca11'', ''Ca12'', ''Ca13'', ''Ca14'', ''Ca15'', ''Ca16'',
        ''Ca17'', ''Ca18'', ''Ca19'']"
    by (simp add: example_calcium_file_def split_words_def)
  have p: "os_path_join ''out'' (IonFrac_fname example_hydrogen_file) = ''out/ionfrac_H_toy_tardis.txt''"
    by (simp add: os_path_join_def IonFrac_fname_def example_hydrogen_file_def)
  have b: "write_blocks example_float_str example_hydrogen_file empty_world 0
             (times_d example_hydrogen_file)
     = (''#TIME: 10.0'' @ [nl] @ ''#NVEL: 2'' @ [nl] @ ''#vel_mid[km/s] H0'' @ [nl]
        @ ''1.000000E+03 2.500000E-01 7.500000E-01'' @ [nl]
        @ ''2.000000E+03 5.000000E-01 5.000000E-01'' @ [nl], None)"
    using hydrogen_block by (simp add: example_hydrogen_file_def)
  have h: "''#NTIMES: '' @ nat_str (length (times_d example_hydrogen_file)) @ [nl]
                       @ ''#NSTAGES: '' @ nat_str (species_num example_hydrogen_file) @ [nl]
                       @ ''#TIMES[d]: '' @ times_str example_float_str (times_d example_hydrogen_file) @ [nl]
                       @ ''#'' @ [nl]
        = ''#NTIMES: 1'' @ [nl] @ ''#NSTAGES: 1'' @ [nl] @ ''#TIMES[d]: 10.0'' @ [nl] @ ''#'' @ [nl]"
    by (simp add: example_hydrogen_file_def times_str_def example_float_str_values nat_str_eval)
  have "IonFracOutputFile_write example_float_str example_hydrogen_file ''out'' empty_world
     = (Inr (), empty_world\<lparr>files := [''out/ionfrac_H_toy_tardis.txt'' \<mapsto>
          ''#NTIMES: 1'' @ [nl] @ ''#NSTAGES: 1'' @ [nl] @ ''#TIMES[d]: 10.0'' @ [nl] @ ''#'' @ [nl]
          @ ''#TIME: 10.0'' @ [nl] @ ''#NVEL: 2'' @ [nl] @ ''#vel_mid[km/s] H0'' @ [nl]
          @ ''1.000000E+03 2.500000E-01 7.500000E-01'' @ [nl]
          @ ''2.000000E+03 5.000000E-01 5.000000E-01'' @ [nl]]\<rparr>)"
    unfolding IonFracOutputFile_write_def Let_def p b h
    by (simp add: empty_world_def)
  with w init_calcium init_hydrogen show ?thesis by (intro conjI)
qed


subsection \<open>Reading a spectra file back\<close>

lemma header_lines_are_comments:
  "l \<in> set (header_lines float_str self w) \<Longrightarrow> \<not> is_data_line l"
  by (cases "cls self") (auto simp: header_lines_def is_data_line_def)

lemma table_line_is_data:
  assumes "vals \<noteq> []"
  shows "is_data_line (csv_row (map format_cell (map Some vals)))"
proof -
  have m: "map format_cell (map Some vals) = map format_6E vals"
    by (simp add: format_cell_def o_def)
  have "map format_6E vals \<noteq> [[]]" using format_6E_token(1) by (cases vals) auto
  then have c: "csv_row (map format_6E vals) = join '' '' (map format_6E vals)"
    by (simp add: csv_row_def)
  have "join '' '' (map format_6E vals) \<noteq> [] \<and>
        hd (join '' '' (map format_6E vals)) = hd (hd (map format_6E vals))"
    using assms format_6E_token(1) by (intro join_nonempty) (auto simp: hd_map)
  then show ?thesis
    using assms format_6E_token(4)[of "hd vals"] unfolding m c is_data_line_def
    by (simp add: hd_map)
qed

lemma read_table_file:
  assumes fs: "\<And>t. nl \<notin> set (float_str t)"
    and rows: "\<And>i. i < index_len df \<Longrightarrow> table_row df i = map Some (vals i) \<and> vals i \<noteq> []"
  shows "read_table (write_header float_str self w @ to_csv df)
           = map (\<lambda>i. map (\<lambda>x. Some (round_6E x)) (vals i)) [0..<index_len df]"
proof -
  have sl: "split_lines (write_header float_str self w @ to_csv df)
              = header_lines float_str self w @ table_lines df"
    by (rule split_lines_file) (rule fs)
  have h: "filter is_data_line (header_lines float_str self w) = []"
    using header_lines_are_comments by (auto simp: filter_empty_conv)
  have tl: "table_lines df = map (\<lambda>i. csv_row (map format_cell (map Some (vals i)))) [0..<index_len df]"
    using rows by (simp add: table_lines_def)
  have t: "filter is_data_line (table_lines df) = table_lines df"
    unfolding tl using rows table_line_is_data by (auto simp: filter_id_conv)
  have "read_table (write_header float_str self w @ to_csv df)
          = map (\<lambda>l. map parse_float (split_words l)) (table_lines df)"
    unfolding read_table_def sl by (simp add: h t)
  also have "\<dots> = map (\<lambda>i. map parse_float (split_words (csv_row (map format_cell (map Some (vals i))))))
                      [0..<index_len df]"
    unfolding tl by (simp add: o_def)
  also have "\<dots> = map (\<lambda>i. map (\<lambda>x. Some (round_6E x)) (vals i)) [0..<index_len df]"
  proof (rule map_cong[OF refl])
    fix i assume "i \<in> set [0..<index_len df]"
    then have "vals i \<noteq> []" using rows by simp
    then have "split_words (csv_row (map format_cell (map Some (vals i)))) = map format_6E (vals i)"
      by (rule split_words_row)
    then show "map parse_float (split_words (csv_row (map format_cell (map Some (vals i)))))
                 = map (\<lambda>x. Some (round_6E x)) (vals i)"
      by (simp add: parse_float_format_6E o_def)
  qed
  finally show ?thesis .
qed

lemma DataFrame_T_row:
  assumes "rs \<noteq> []" "\<And>r. r \<in> set rs \<Longrightarrow> length r = n" "i < n"
  shows "map (\<lambda>(l, c). c ! i) (columns (DataFrame_T rs)) = map (\<lambda>r. Some (r ! i)) rs"
proof (rule nth_equalityI)
  show "length (map (\<lambda>(l, c). c ! i) (columns (DataFrame_T rs))) = length (map (\<lambda>r. Some (r ! i)) rs)"
    using DataFrame_T_rect(2)[OF assms(1,2)] by simp
next
  fix k assume "k < length (map (\<lambda>(l, c). c ! i) (columns (DataFrame_T rs)))"
  then have k: "k < length rs" using DataFrame_T_rect(2)[OF assms(1,2)] by simp
  then have "length (rs ! k) = n" using assms(2) by simp
  then show "map (\<lambda>(l, c). c ! i) (columns (DataFrame_T rs)) ! k = map (\<lambda>r. Some (r ! i)) rs ! k"
    using k DataFrame_T_rect(2,3)[OF assms(1,2)] assms(3) by simp
qed

lemma spectra_from_simulations:
  assumes ne: "sims \<noteq> []"
    and lens: "\<forall>s \<in> set sims. length (luminosity_density_lambda s) = length (wavelength (hd sims))"
  defines "df \<equiv> \<lparr>index_len = length (wavelength (hd sims)),
                   columns = (StrLabel ''wav'', map Some (wavelength (hd sims)))
                             # columns (DataFrame_T (map luminosity_density_lambda sims))\<rparr>"
  shows "from_simulations SpectralOutputFile sims name w =
           (Inr \<lparr>cls = SpectralOutputFile, times_d = map time_explosion sims,
                  data_table = FrameRef (next_ref w), model_name = name\<rparr>,
            w\<lparr>frames := (frames w)(next_ref w := df), next_ref := Suc (next_ref w)\<rparr>)"
    and "\<And>i. i < index_len df \<Longrightarrow>
           table_row df i = map Some (wavelength (hd sims) ! i
                                       # map (\<lambda>s. luminosity_density_lambda s ! i) sims)"
proof -
  let ?rows = "map luminosity_density_lambda sims"
  let ?wav = "wavelength (hd sims)"
  have rect: "?rows \<noteq> []" "\<And>r. r \<in> set ?rows \<Longrightarrow> length r = length ?wav"
    using ne lens by auto
  have tab: "get_data_table SpectralOutputFile sims = Inr (DataFrame_T ?rows)"
    by (simp add: get_data_table_def)
  have col: "get_data_first_column SpectralOutputFile sims = Inr ?wav"
    using ne by (cases sims) simp_all
  have il: "index_len (DataFrame_T ?rows) = length ?wav"
    by (rule DataFrame_T_rect(1)[OF rect])
  have ins: "DataFrame_insert 0 (StrLabel ''wav'') ?wav (DataFrame_T ?rows) = Inr df"
    using wav_not_in_DataFrame_T[of ?rows] il
    by (auto simp: DataFrame_insert_def df_def)
  show "from_simulations SpectralOutputFile sims name w =
           (Inr \<lparr>cls = SpectralOutputFile, times_d = map time_explosion sims,
                  data_table = FrameRef (next_ref w), model_name = name\<rparr>,
            w\<lparr>frames := (frames w)(next_ref w := df), next_ref := Suc (next_ref w)\<rparr>)"
    by (rule from_simulations_success[OF tab col _ _ ins]) simp_all
  fix i assume "i < index_len df"
  then have i: "i < length ?wav" by (simp add: df_def)
  have "map (\<lambda>(l, c). c ! i) (columns (DataFrame_T ?rows)) = map (\<lambda>r. Some (r ! i)) ?rows"
    by (rule DataFrame_T_row[OF rect i])
  then show "table_row df i = map Some (?wav ! i # map (\<lambda>s. luminosity_density_lambda s ! i) sims)"
    using i by (simp add: table_row_def df_def o_def)
qed


text \<open>
  C9 (amended). For a non-empty list of simulations in which every luminosity-density
  array has the length of the wavelength array of the first simulation,
  \<open>from_simulations\<close> and \<open>write\<close> succeed, and reading the file back (skipping the
  lines that start with \<open>#\<close>, splitting at blanks) gives one row per wavelength: the
  wavelength, then the luminosity density of every simulation in order, each as the
  number the \<^verbatim>\<open>%.6E\<close> token denotes. That number differs from the original by at most
  \<open>5 * 10 ^ -7\<close> times its magnitude (seven significant digits, so six as well).
\<close>

theorem spectra_round_trip:
  assumes ne: "sims \<noteq> []"
    and lens: "\<forall>s \<in> set sims. length (luminosity_density_lambda s) = length (wavelength (hd sims))"
    and fs: "\<forall>t. nl \<notin> set (float_str t)"
    and op: "can_open w (os_path_join dest (''spectra_'' @ name @ ''_tardis.txt''))"
  shows "\<exists>obj w1 w2 content.
      from_simulations SpectralOutputFile sims name w = (Inr obj, w1) \<and>
      CodeComparisonOutputFile_write float_str obj dest w1 = (Inr (), w2) \<and>
      files w2 (os_path_join dest (''spectra_'' @ name @ ''_tardis.txt'')) = Some content \<and>
      read_table content
        = map (\<lambda>i. Some (round_6E (wavelength (hd sims) ! i))
                    # map (\<lambda>s. Some (round_6E (luminosity_density_lambda s ! i))) sims)
              [0..<length (wavelength (hd sims))] \<and>
      (\<forall>x. parse_float (format_6E x) = Some (round_6E x) \<and> \<bar>round_6E x - x\<bar> \<le> \<bar>x\<bar> * 5 / 10 ^ 7)"
proof -
  define df where "df = \<lparr>index_len = length (wavelength (hd sims)),
                   columns = (StrLabel ''wav'', map Some (wavelength (hd sims)))
                             # columns (DataFrame_T (map luminosity_density_lambda sims))\<rparr>"
  define obj where "obj = \<lparr>cls = SpectralOutputFile, times_d = map time_explosion sims,
                  data_table = FrameRef (next_ref w), model_name = name\<rparr>"
  define w1 where "w1 = w\<lparr>frames := (frames w)(next_ref w := df), next_ref := Suc (next_ref w)\<rparr>"
  define path where "path = os_path_join dest (''spectra_'' @ name @ ''_tardis.txt'')"
  define content where "content = write_header float_str obj w1 @ to_csv df"
  define w2 where "w2 = w1\<lparr>files := (files w1)(path \<mapsto> content)\<rparr>"
  note S = spectra_from_simulations[OF ne lens, folded df_def]
  have a: "from_simulations SpectralOutputFile sims name w = (Inr obj, w1)"
    unfolding obj_def w1_def by (rule S(1))
  have p: "os_path_join dest (fname obj) = path"
    by (simp add: path_def fname_def obj_def)
  have "can_open w1 path" using op by (simp add: w1_def path_def)
  then have b: "CodeComparisonOutputFile_write float_str obj dest w1 = (Inr (), w2)"
    unfolding CodeComparisonOutputFile_write_def Let_def p
    by (simp add: obj_def w2_def content_def w1_def)
  have c: "files w2 path = Some content" by (simp add: w2_def)
  have rows: "\<And>i. i < index_len df \<Longrightarrow>
      table_row df i = map Some (wavelength (hd sims) ! i
                                   # map (\<lambda>s. luminosity_density_lambda s ! i) sims)
      \<and> wavelength (hd sims) ! i # map (\<lambda>s. luminosity_density_lambda s ! i) sims \<noteq> []"
    using S(2) by simp
  have "read_table content
          = map (\<lambda>i. map (\<lambda>x. Some (round_6E x))
                       (wavelength (hd sims) ! i # map (\<lambda>s. luminosity_density_lambda s ! i) sims))
                [0..<index_len df]"
    unfolding content_def using fs rows by (intro read_table_file) simp_all
  then have d: "read_table content
        = map (\<lambda>i. Some (round_6E (wavelength (hd sims) ! i))
                    # map (\<lambda>s. Some (round_6E (luminosity_density_lambda s ! i))) sims)
              [0..<length (wavelength (hd sims))]"
    by (simp add: df_def o_def)
  have e: "\<forall>x. parse_float (format_6E x) = Some (round_6E x) \<and> \<bar>round_6E x - x\<bar> \<le> \<bar>x\<bar> * 5 / 10 ^ 7"
    using parse_float_format_6E round_6E_error by simp
  from a b c d e show ?thesis unfolding path_def by (intro exI conjI)
qed

lemma ragged_from_simulations:
  "from_simulations SpectralOutputFile [ragged_sim_a, ragged_sim_b] ''toy'' empty_world
     = (Inr ragged_file, ragged_world)"
proof -
  have t: "DataFrame_T [[2], [5, 7]]
             = \<lparr>index_len = 2, columns = [(IntLabel 0, [Some 2, None]), (IntLabel 1, [Some 5, Some 7])]\<rparr>"
    by (simp add: DataFrame_T_def enumerate_eq_zip upt_conv_Cons)
  have i: "DataFrame_insert 0 (StrLabel ''wav'') [4000, 5000] (DataFrame_T [[2], [5, 7]]) = Inr ragged_frame"
    unfolding t by (simp add: DataFrame_insert_def ragged_frame_def)
  have "get_data_table SpectralOutputFile [ragged_sim_a, ragged_sim_b] = Inr (DataFrame_T [[2], [5, 7]])"
    by (simp add: get_data_table_def ragged_sim_a_def ragged_sim_b_def)
  moreover have "get_data_first_column SpectralOutputFile [ragged_sim_a, ragged_sim_b] = Inr [4000, 5000]"
    by (simp add: ragged_sim_a_def)
  ultimately have "from_simulations SpectralOutputFile [ragged_sim_a, ragged_sim_b] ''toy'' empty_world
     = (Inr \<lparr>cls = SpectralOutputFile, times_d = map time_explosion [ragged_sim_a, ragged_sim_b],
              data_table = FrameRef (next_ref empty_world), model_name = ''toy''\<rparr>,
        empty_world\<lparr>frames := (frames empty_world)(next_ref empty_world := ragged_frame),
                     next_ref := Suc (next_ref empty_world)\<rparr>)"
    using i by (intro from_simulations_success) simp_all
  then show ?thesis
    by (simp add: ragged_file_def ragged_world_def ragged_sim_a_def ragged_sim_b_def empty_world_def)
qed

lemma ragged_write:
  "CodeComparisonOutputFile_write example_float_str ragged_file ''out'' ragged_world
     = (Inr (), ragged_world\<lparr>files := [''out/spectra_toy_tardis.txt'' \<mapsto> ragged_text]\<rparr>)"
proof -
  have p: "os_path_join ''out'' (fname ragged_file) = ''out/spectra_toy_tardis.txt''"
    by (simp add: os_path_join_def fname_def ragged_file_def)
  have h: "write_header example_float_str ragged_file ragged_world
      = ''#NTIMES: 2'' @ [nl] @ ''#NWAVE: 2'' @ [nl] @ ''#TIMES[d]: 10.0 12.0'' @ [nl]
     @ ''#wavelength[Ang] flux_t0[erg/s/Ang] flux_t1[erg/s/Ang] ... flux_tn[erg/s/Ang]'' @ [nl]"
    by (simp add: write_header_def ragged_file_def ragged_world_def ragged_frame_def len_table_def
        times_str_def example_float_str_values nat_str_eval)
  have b: "to_csv ragged_frame
      = ''4.000000E+03 2.000000E+00 5.000000E+00'' @ [nl] @ ''5.000000E+03  7.000000E+00'' @ [nl]"
    by (simp add: to_csv_def ragged_frame_def table_row_def format_cell_def csv_row_def
        format_6E_examples upt_conv_Cons)
  have f: "frames ragged_world 0 = ragged_frame" "files ragged_world = Map.empty"
    "can_open ragged_world ''out/spectra_toy_tardis.txt''"
    by (simp_all add: ragged_world_def empty_world_def)
  have d: "data_table ragged_file = FrameRef 0" by (simp add: ragged_file_def)
  have "CodeComparisonOutputFile_write example_float_str ragged_file ''out'' ragged_world
     = (Inr (), ragged_world\<lparr>files := (files ragged_world)(''out/spectra_toy_tardis.txt'' \<mapsto>
          write_header example_float_str ragged_file ragged_world @ to_csv (frames ragged_world 0))\<rparr>)"
    unfolding CodeComparisonOutputFile_write_def Let_def p d using f(3) by simp
  then show ?thesis unfolding f h b ragged_text_def by simp
qed

lemma parse_examples:
  "parse_float ''4.000000E+03'' = Some 4000"
  "parse_float ''5.000000E+03'' = Some 5000"
  "parse_float ''2.000000E+00'' = Some 2"
  "parse_float ''5.000000E+00'' = Some 5"
  "parse_float ''7.000000E+00'' = Some 7"
  by (simp_all add: parse_float_def is_digit_def digits_val_def digit_val_def pow10_def)

lemma ragged_read: "read_table ragged_text = [[Some 4000, Some 2, Some 5], [Some 5000, Some 7]]"
proof -
  have "split_lines ragged_text
     = [''#NTIMES: 2'', ''#NWAVE: 2'', ''#TIMES[d]: 10.0 12.0'',
        ''#wavelength[Ang] flux_t0[erg/s/Ang] flux_t1[erg/s/Ang] ... flux_tn[erg/s/Ang]'',
        ''4.000000E+03 2.000000E+00 5.000000E+00'', ''5.000000E+03  7.000000E+00'']"
    by (simp add: split_lines_def ragged_text_def nl_def)
  moreover have "split_words ''4.000000E+03 2.000000E+00 5.000000E+00''
     = [''4.000000E+03'', ''2.000000E+00'', ''5.000000E+00'']"
    "split_words ''5.000000E+03  7.000000E+00'' = [''5.000000E+03'', ''7.000000E+00'']"
    by (simp_all add: split_words_def)
  ultimately show ?thesis
    by (simp add: read_table_def is_data_line_def parse_examples)
qed


lemma parse_examples_more: "parse_float ''3.000000E+00'' = Some 3"
  by (simp add: parse_float_def is_digit_def digits_val_def digit_val_def pow10_def)

lemma round_6E_examples:
  "round_6E 4000 = 4000" "round_6E 5000 = 5000" "round_6E 2 = 2" "round_6E 3 = 3"
  "round_6E 5 = 5" "round_6E 7 = 7"
  using parse_float_format_6E[of 4000] parse_float_format_6E[of 5000] parse_float_format_6E[of 2]
    parse_float_format_6E[of 3] parse_float_format_6E[of 5] parse_float_format_6E[of 7]
  by (simp_all add: format_6E_examples parse_examples parse_examples_more)


theorem spectra_round_trip_witness:
  "scenario_simulations \<noteq> [] \<and>
   (\<forall>t. nl \<notin> set (example_float_str t)) \<and>
   can_open empty_world ''out/spectra_toy_tardis.txt'' \<and>
   (\<exists>obj w1 w2 content.
      from_simulations SpectralOutputFile scenario_simulations ''toy'' empty_world = (Inr obj, w1) \<and>
      CodeComparisonOutputFile_write example_float_str obj ''out'' w1 = (Inr (), w2) \<and>
      files w2 ''out/spectra_toy_tardis.txt'' = Some content \<and>
      read_table content = [[Some 4000, Some 2, Some 5], [Some 5000, Some 3, Some 7]])"
proof -
  have ne: "scenario_simulations \<noteq> []" by (simp add: scenario_simulations_def)
  have lens: "\<forall>s \<in> set scenario_simulations.
      length (luminosity_density_lambda s) = length (wavelength (hd scenario_simulations))"
    by (simp add: scenario_simulations_def scenario_sim_a_def scenario_sim_b_def)
  have fs: "\<forall>t. nl \<notin> set (example_float_str t)" using example_float_str_no_nl by simp
  have p: "os_path_join ''out'' (''spectra_'' @ ''toy'' @ ''_tardis.txt'') = ''out/spectra_toy_tardis.txt''"
    by (simp add: os_path_join_def)
  have op: "can_open empty_world (os_path_join ''out'' (''spectra_'' @ ''toy'' @ ''_tardis.txt''))"
    by (simp add: empty_world_def)
  have r: "map (\<lambda>i. Some (round_6E (wavelength (hd scenario_simulations) ! i))
                    # map (\<lambda>s. Some (round_6E (luminosity_density_lambda s ! i))) scenario_simulations)
              [0..<length (wavelength (hd scenario_simulations))]
         = [[Some 4000, Some 2, Some 5], [Some 5000, Some 3, Some 7]]"
    by (simp add: scenario_simulations_def scenario_sim_a_def scenario_sim_b_def upt_conv_Cons
        round_6E_examples)
  from spectra_round_trip[OF ne lens fs op] obtain obj w1 w2 content where
    "from_simulations SpectralOutputFile scenario_simulations ''toy'' empty_world = (Inr obj, w1)"
    "CodeComparisonOutputFile_write example_float_str obj ''out'' w1 = (Inr (), w2)"
    "files w2 (os_path_join ''out'' (''spectra_'' @ ''toy'' @ ''_tardis.txt'')) = Some content"
    "read_table content
        = map (\<lambda>i. Some (round_6E (wavelength (hd scenario_simulations) ! i))
                    # map (\<lambda>s. Some (round_6E (luminosity_density_lambda s ! i))) scenario_simulations)
              [0..<length (wavelength (hd scenario_simulations))]"
    by (elim exE conjE) (rule that)
  then have "\<exists>obj w1 w2 content.
      from_simulations SpectralOutputFile scenario_simulations ''toy'' empty_world = (Inr obj, w1) \<and>
      CodeComparisonOutputFile_write example_float_str obj ''out'' w1 = (Inr (), w2) \<and>
      files w2 ''out/spectra_toy_tardis.txt'' = Some content \<and>
      read_table content = [[Some 4000, Some 2, Some 5], [Some 5000, Some 3, Some 7]]"
    unfolding r p by (intro exI conjI)
  moreover have "can_open empty_world ''out/spectra_toy_tardis.txt''" by (simp add: empty_world_def)
  ultimately show ?thesis using ne fs by (intro conjI)
qed

text \<open>
  C9 as stated fails when the spectra have different lengths: the table is padded with
  missing cells, which are written as empty fields, and a reader that splits at blanks
  shifts the later fields to the left. Here the first simulation has one luminosity
  value and the second has two; the second row reads back with two numbers, and the
  value 7 of the second simulation stands in the column of the first.
\<close>

theorem spectra_round_trip_counterexample:
  "from_simulations SpectralOutputFile [ragged_sim_a, ragged_sim_b] ''toy'' empty_world
     = (Inr ragged_file, ragged_world) \<and>
   CodeComparisonOutputFile_write example_float_str ragged_file ''out'' ragged_world
     = (Inr (), ragged_world\<lparr>files := [''out/spectra_toy_tardis.txt'' \<mapsto> ragged_text]\<rparr>) \<and>
   read_table ragged_text = [[Some 4000, Some 2, Some 5], [Some 5000, Some 7]] \<and>
   luminosity_density_lambda ragged_sim_a = [2] \<and>
   luminosity_density_lambda ragged_sim_b = [5, 7] \<and>
   map (\<lambda>row. row ! 1) (read_table ragged_text) \<noteq> map Some (luminosity_density_lambda ragged_sim_a)"
  using ragged_from_simulations ragged_write ragged_read
  by (simp add: ragged_sim_a_def ragged_sim_b_def)

end
